theory Spec2Isabelle
  imports Complex_Main "HOL-Library.Multiset"
begin

section \<open>JavaScript values used by the forms\<close>

text \<open>
  A JavaScript number is a binary64 float. The model keeps the three special values and
  represents every finite number by its exact rational value: rounding to the nearest
  binary64 is modelled in its overflow only (\<open>round64\<close>), so the sign, the zero test,
  \<open>NaN\<close> and the infinities behave as in the runtime, and the low bits of a finite result
  are exact instead of rounded.
\<close>

datatype jsnum = NaN | Fin rat | PosInf | NegInf

text \<open>The form state is typed \<open>any\<close>; these are the values a field can hold.\<close>

datatype jsval = Undefined | Null | Str string | Num jsnum

definition overflow64 :: rat where
  "overflow64 = 2 ^ 1024 - 2 ^ 970"

text \<open>
  A real of magnitude at least \<open>2^1024 - 2^970\<close> rounds to an infinity (round to nearest,
  ties to even); below that it stays finite.
\<close>

definition round64 :: "rat \<Rightarrow> jsnum" where
  "round64 x = (if overflow64 \<le> x then PosInf
                else if x \<le> - overflow64 then NegInf
                else Fin x)"

text \<open>The operators \<open>+\<close> and \<open>-\<close> on numbers.\<close>

fun jsneg :: "jsnum \<Rightarrow> jsnum" where
  "jsneg NaN = NaN"
| "jsneg (Fin x) = Fin (- x)"
| "jsneg PosInf = NegInf"
| "jsneg NegInf = PosInf"

fun jsadd :: "jsnum \<Rightarrow> jsnum \<Rightarrow> jsnum" where
  "jsadd NaN _ = NaN"
| "jsadd _ NaN = NaN"
| "jsadd (Fin x) (Fin y) = round64 (x + y)"
| "jsadd PosInf NegInf = NaN"
| "jsadd NegInf PosInf = NaN"
| "jsadd PosInf _ = PosInf"
| "jsadd NegInf _ = NegInf"
| "jsadd (Fin _) PosInf = PosInf"
| "jsadd (Fin _) NegInf = NegInf"

definition jssub :: "jsnum \<Rightarrow> jsnum \<Rightarrow> jsnum" where
  "jssub a b = jsadd a (jsneg b)"

text \<open>Truthiness of a number (\<open>0\<close> and \<open>NaN\<close> are falsy) and of a value.\<close>

fun truthyNum :: "jsnum \<Rightarrow> bool" where
  "truthyNum NaN = False"
| "truthyNum (Fin x) = (x \<noteq> 0)"
| "truthyNum PosInf = True"
| "truthyNum NegInf = True"

fun truthy :: "jsval \<Rightarrow> bool" where
  "truthy Undefined = False"
| "truthy Null = False"
| "truthy (Str s) = (s \<noteq> [])"
| "truthy (Num n) = truthyNum n"

text \<open>\<open>x || 0\<close> on a number.\<close>

definition orZero :: "jsnum \<Rightarrow> jsnum" where
  "orZero x = (if truthyNum x then x else Fin 0)"

text \<open>
  \<open>val.toString()\<close>: a string is itself. The decimal text of a number
  (\<open>Number.prototype.toString\<close>) is a parameter \<open>numStr\<close> of the functions that call it.
\<close>

fun toString :: "(jsnum \<Rightarrow> string) \<Rightarrow> jsval \<Rightarrow> string" where
  "toString numStr (Str s) = s"
| "toString numStr (Num n) = numStr n"
| "toString numStr Undefined = ''undefined''"
| "toString numStr Null = ''null''"

section \<open>The numeric parser\<close>

definition isDigit :: "char \<Rightarrow> bool" where
  "isDigit c = (c \<in> set ''0123456789'')"

text \<open>\<open>replace(/[^0-9.]/g, '')\<close>\<close>

definition cleanNumeric :: "string \<Rightarrow> string" where
  "cleanNumeric s = filter (\<lambda>c. isDigit c \<or> c = CHR ''.'') s"

text \<open>\<open>split('.')\<close>: the pieces between the points; never an empty array.\<close>

fun splitDot :: "string \<Rightarrow> string list" where
  "splitDot [] = [[]]"
| "splitDot (c # cs) =
     (if c = CHR ''.'' then [] # splitDot cs
      else (c # hd (splitDot cs)) # tl (splitDot cs))"

definition digitVal :: "char \<Rightarrow> nat" where
  "digitVal c = of_char c - 48"

definition digitsVal :: "string \<Rightarrow> nat" where
  "digitsVal ds = foldl (\<lambda>a c. 10 * a + digitVal c) 0 ds"

definition decimalValue :: "string \<Rightarrow> string \<Rightarrow> rat" where
  "decimalValue ip fp = of_nat (digitsVal ip) + of_nat (digitsVal fp) / 10 ^ length fp"

text \<open>
  \<open>parseFloat\<close> on the strings the program gives it, which hold digits and points only:
  it reads the longest prefix of the form digits, then optionally a point and digits,
  and is \<open>NaN\<close> when that prefix has no digit. (White space, signs, exponents and
  \<open>Infinity\<close> cannot occur in a cleaned string and are not modelled.)
\<close>

definition parseFloat :: "string \<Rightarrow> jsnum" where
  "parseFloat s =
     (let ip = takeWhile isDigit s;
          r = dropWhile isDigit s;
          fp = (case r of c # r' \<Rightarrow> if c = CHR ''.'' then takeWhile isDigit r' else []
                | [] \<Rightarrow> [])
      in if ip = [] \<and> fp = [] then NaN else round64 (decimalValue ip fp))"

text \<open>
  \<open>getVal\<close> of ReportForm.tsx:
  \<^verbatim>\<open>
  const getVal = (val: any): number => {
    if (typeof val === 'number') return val;
    if (!val) return 0;
    const cleaned = val.toString().replace(/[^0-9.]/g, '');
    const parts = cleaned.split('.');
    if (parts.length > 2) {
      return parseFloat(`${parts[0]}.${parts[1]}`) || 0;
    }
    return parseFloat(cleaned) || 0;
  };
  \<close>
\<close>

definition ReportForm_getVal :: "jsval \<Rightarrow> jsnum" where
  "ReportForm_getVal val =
     (case val of
        Num n \<Rightarrow> n
      | _ \<Rightarrow>
        if \<not> truthy val then Fin 0
        else
          let cleaned = cleanNumeric (toString (\<lambda>_. []) val);
              parts = splitDot cleaned
          in if length parts > 2
             then orZero (parseFloat (parts ! 0 @ ''.'' @ parts ! 1))
             else orZero (parseFloat cleaned))"

text \<open>
  \<open>getVal\<close> of AdminDashboard.tsx and of DriverDashboard.tsx (the same text in both):
  \<^verbatim>\<open>
  const getVal = (val: any) => {
      const str = val ? val.toString() : '';
      const cleaned = str.replace(/[^0-9.]/g, '');
      return parseFloat(cleaned) || 0;
  };
  \<close>
\<close>

definition Dashboard_getVal :: "(jsnum \<Rightarrow> string) \<Rightarrow> jsval \<Rightarrow> jsnum" where
  "Dashboard_getVal numStr val =
     (let str = (if truthy val then toString numStr val else []);
          cleaned = cleanNumeric str
      in orZero (parseFloat cleaned))"

section \<open>Drivers and daily reports\<close>

text \<open>
  \<open>interface Driver\<close> of types.ts. The optional \<open>dailySalary?\<close> is left out: no code of
  the repository writes or reads it (\<open>MOCK_DRIVERS\<close>, \<open>handleSaveDriver\<close> and the row
  mapping of \<open>getDrivers\<close> all build drivers of exactly these four fields). The fields
  \<open>id\<close> and \<open>name\<close> are called \<open>driver_id\<close> and \<open>driver_name\<close> here.
\<close>

record Driver =
  driver_id :: string
  driver_name :: string
  vehicle :: string
  pin :: string

text \<open>
  \<open>date: string // YYYY-MM-DD\<close>: the value of a date input, which is such a text or the
  blank text \<open>''\<close>. A dated text is kept as its three numbers (the month counted from 1,
  as it is written); a report's \<open>date\<close> is \<open>None\<close> when blank, as it is after the date
  has been cleared in an edit dialog.
\<close>

record isoDate =
  year :: int
  month :: int
  day :: int

text \<open>
  \<open>IncomeBreakdown\<close>, \<open>ExpenseBreakdown\<close> and \<open>DailyReport\<close>. The amounts have type
  \<open>'a\<close>: numbers (\<open>jsnum\<close>) in a stored report, arbitrary values (\<open>jsval\<close>) in the form
  state and in the report being edited, which are typed \<open>any\<close> and hold the typed text.
  The fields \<open>id\<close> and \<open>notes\<close> are called \<open>report_id\<close> and \<open>report_notes\<close>.
\<close>

record 'a IncomeBreakdown =
  local :: 'a
  outstation :: 'a
  mixed :: 'a

record 'a ExpenseBreakdown =
  fuel :: 'a
  maintenance :: 'a
  toll :: 'a
  other :: 'a

record 'a DailyReport =
  report_id :: string
  driverId :: string
  driverName :: string
  date :: "isoDate option"
  kmsDriven :: jsval
  loginTime :: string
  logoutTime :: string
  income :: "'a IncomeBreakdown"
  expenses :: "'a ExpenseBreakdown"
  totalIncome :: jsnum
  totalExpenses :: jsnum
  driverSalary :: 'a
  netProfit :: jsnum
  report_notes :: string
  timestamp :: int

section \<open>Creating a report (ReportForm.tsx)\<close>

text \<open>The form's expense state has the four expense fields and \<open>salary\<close>.\<close>

record 'a FormExpenses = "'a ExpenseBreakdown" +
  salary :: 'a

text \<open>The \<open>useState\<close> cells of the form.\<close>

record ReportFormState =
  form_date :: "isoDate option"
  form_kmsDriven :: string
  form_loginTime :: string
  form_logoutTime :: string
  form_income :: "jsval IncomeBreakdown"
  form_expenses :: "jsval FormExpenses"
  form_notes :: string

text \<open>\<open>a || b\<close> on strings.\<close>

definition orStr :: "string \<Rightarrow> string \<Rightarrow> string" where
  "orStr a b = (if a = [] then b else a)"

text \<open>
  The totals computed at each render, and \<open>handleSubmit\<close>, which builds the report
  from them; \<open>uuid\<close> is the result of \<open>uuidv4()\<close> and \<open>now\<close> that of \<open>Date.now()\<close>.
  \<^verbatim>\<open>
  const totalIncome = getVal(income.local) + getVal(income.outstation) + getVal(income.mixed);
  const totalExpenses = getVal(expenses.fuel) + getVal(expenses.maintenance)
    + getVal(expenses.toll) + getVal(expenses.other) + getVal(expenses.salary);
  const driverSalary = getVal(expenses.salary);
  const netProfit = totalIncome - totalExpenses;
  \<close>
\<close>

definition ReportForm_totalIncome :: "ReportFormState \<Rightarrow> jsnum" where
  "ReportForm_totalIncome st =
     jsadd (jsadd (ReportForm_getVal (local (form_income st)))
                  (ReportForm_getVal (outstation (form_income st))))
           (ReportForm_getVal (mixed (form_income st)))"

definition ReportForm_totalExpenses :: "ReportFormState \<Rightarrow> jsnum" where
  "ReportForm_totalExpenses st =
     jsadd (jsadd (jsadd (jsadd (ReportForm_getVal (fuel (form_expenses st)))
                                (ReportForm_getVal (maintenance (form_expenses st))))
                         (ReportForm_getVal (toll (form_expenses st))))
                  (ReportForm_getVal (other (form_expenses st))))
           (ReportForm_getVal (salary (form_expenses st)))"

definition ReportForm_driverSalary :: "ReportFormState \<Rightarrow> jsnum" where
  "ReportForm_driverSalary st = ReportForm_getVal (salary (form_expenses st))"

definition ReportForm_netProfit :: "ReportFormState \<Rightarrow> jsnum" where
  "ReportForm_netProfit st = jssub (ReportForm_totalIncome st) (ReportForm_totalExpenses st)"

definition ReportForm_handleSubmit ::
  "Driver \<Rightarrow> ReportFormState \<Rightarrow> string \<Rightarrow> int \<Rightarrow> jsnum DailyReport" where
  "ReportForm_handleSubmit driver st uuid now =
     (let finalIncome = \<lparr> local = ReportForm_getVal (local (form_income st)),
                           outstation = ReportForm_getVal (outstation (form_income st)),
                           mixed = ReportForm_getVal (mixed (form_income st)) \<rparr>;
          finalExpenses = \<lparr> fuel = ReportForm_getVal (fuel (form_expenses st)),
                             maintenance = ReportForm_getVal (maintenance (form_expenses st)),
                             toll = ReportForm_getVal (toll (form_expenses st)),
                             other = ReportForm_getVal (other (form_expenses st)) \<rparr>
      in \<lparr> report_id = uuid,
           driverId = driver_id driver,
           driverName = driver_name driver,
           date = form_date st,
           kmsDriven = Num (ReportForm_getVal (Str (form_kmsDriven st))),
           loginTime = orStr (form_loginTime st) ''00:00'',
           logoutTime = orStr (form_logoutTime st) ''00:00'',
           income = finalIncome,
           expenses = finalExpenses,
           totalIncome = ReportForm_totalIncome st,
           totalExpenses = ReportForm_totalExpenses st,
           driverSalary = ReportForm_driverSalary st,
           netProfit = ReportForm_netProfit st,
           report_notes = form_notes st,
           timestamp = now \<rparr>)"

section \<open>Editing a report (AdminDashboard.tsx, DriverDashboard.tsx)\<close>

text \<open>
  \<open>handleUpdateReport\<close>, the same in both dashboards but for the names of two locals.
  \<open>editingReport\<close> is the stored report with the edited fields replaced by the typed
  text, or \<open>null\<close>; the result is the report given to \<open>saveReport\<close>, or nothing after the
  early return. The spread \<open>...editingReport\<close> copies the fields that are not listed.
  \<^verbatim>\<open>
  if (!editingReport) return;
  const incLocal = getVal(editingReport.income.local);  ...
  const salary = getVal(editingReport.driverSalary);
  const newTotalIncome = incLocal + incOut + incMixed;
  const newTotalExpenses = expFuel + expMaint + expToll + expOther + salary;
  const newNetProfit = newTotalIncome - newTotalExpenses;
  const updated: DailyReport = { ...editingReport,
      income: { local: incLocal, outstation: incOut, mixed: incMixed },
      expenses: { fuel: expFuel, maintenance: expMaint, toll: expToll, other: expOther },
      driverSalary: salary, totalIncome: newTotalIncome,
      totalExpenses: newTotalExpenses, netProfit: newNetProfit };
  storageService.saveReport(updated);
  \<close>
\<close>

definition handleUpdateReport ::
  "(jsnum \<Rightarrow> string) \<Rightarrow> jsval DailyReport option \<Rightarrow> jsnum DailyReport option" where
  "handleUpdateReport numStr editingReport =
     (case editingReport of
        None \<Rightarrow> None
      | Some e \<Rightarrow>
        let incLocal = Dashboard_getVal numStr (local (income e));
            incOut = Dashboard_getVal numStr (outstation (income e));
            incMixed = Dashboard_getVal numStr (mixed (income e));
            expFuel = Dashboard_getVal numStr (fuel (expenses e));
            expMaint = Dashboard_getVal numStr (maintenance (expenses e));
            expToll = Dashboard_getVal numStr (toll (expenses e));
            expOther = Dashboard_getVal numStr (other (expenses e));
            salary = Dashboard_getVal numStr (driverSalary e);
            newTotalIncome = jsadd (jsadd incLocal incOut) incMixed;
            newTotalExpenses = jsadd (jsadd (jsadd (jsadd expFuel expMaint) expToll) expOther) salary;
            newNetProfit = jssub newTotalIncome newTotalExpenses
        in Some \<lparr> report_id = report_id e,
                  driverId = driverId e,
                  driverName = driverName e,
                  date = date e,
                  kmsDriven = kmsDriven e,
                  loginTime = loginTime e,
                  logoutTime = logoutTime e,
                  income = \<lparr> local = incLocal, outstation = incOut, mixed = incMixed \<rparr>,
                  expenses = \<lparr> fuel = expFuel, maintenance = expMaint,
                               toll = expToll, other = expOther \<rparr>,
                  totalIncome = newTotalIncome,
                  totalExpenses = newTotalExpenses,
                  driverSalary = salary,
                  netProfit = newNetProfit,
                  report_notes = report_notes e,
                  timestamp = timestamp e \<rparr>)"

section \<open>Dates\<close>

text \<open>
  The program uses a \<open>Date\<close> object through \<open>getFullYear()\<close>, \<open>getMonth()\<close> (counted
  from 0), \<open>getDate()\<close> and \<open>getTime()\<close>. The model follows the language's definition of
  these: a time value is a number of milliseconds since 1 January 1970 UTC, and the local
  fields are read in the runtime's time zone, which is a parameter of the model.
\<close>

definition isLeapYear :: "int \<Rightarrow> bool" where
  "isLeapYear y = ((y mod 4 = 0 \<and> y mod 100 \<noteq> 0) \<or> y mod 400 = 0)"

text \<open>Days from 1 January 1970 to 1 January of year \<open>y\<close> (Gregorian calendar).\<close>

definition daysBeforeYear :: "int \<Rightarrow> int" where
  "daysBeforeYear y =
     365 * (y - 1970) + ((y - 1) div 4 - 492) - ((y - 1) div 100 - 19) + ((y - 1) div 400 - 4)"

definition daysInMonth :: "int \<Rightarrow> int \<Rightarrow> int" where
  "daysInMonth y m =
     (if m = 1 then (if isLeapYear y then 29 else 28)
      else if m = 3 \<or> m = 5 \<or> m = 8 \<or> m = 10 then 30
      else 31)"

text \<open>Days from 1 January of year \<open>y\<close> to the first of the month of index \<open>m\<close>.\<close>

definition daysBeforeMonth :: "int \<Rightarrow> int \<Rightarrow> int" where
  "daysBeforeMonth y m =
     [0, 31, 59, 90, 120, 151, 181, 212, 243, 273, 304, 334] ! nat m
       + (if isLeapYear y \<and> 2 \<le> m then 1 else 0)"

text \<open>
  The calendar fields of a valid \<open>Date\<close>: year, month index from 0, day of the month.
  An \<open>Invalid Date\<close> is \<open>None\<close>, and so is the \<open>NaN\<close> that its methods return.
\<close>

record jsDate =
  getFullYear :: int
  getMonth :: int
  getDate :: int

text \<open>
  Days from 1 January 1970 to a day (the language's \<open>MakeDay\<close>): a month index out of
  range is carried into the year and a day of the month out of range into the months that
  follow.
\<close>

definition dayNumber :: "jsDate \<Rightarrow> int" where
  "dayNumber d =
     (let y = getFullYear d + getMonth d div 12;
          m = getMonth d mod 12
      in daysBeforeYear y + daysBeforeMonth y m + (getDate d - 1))"

definition msPerDay :: int where
  "msPerDay = 24 * 60 * 60 * 1000"

text \<open>
  The time zone of the runtime, as the language has it (\<open>LocalTZA\<close>): the offset of local
  time from UTC, in milliseconds, at an instant given in UTC and at a time given on the
  local clock. The two differ around a daylight-saving change. Offsets are less than a
  day: negative west of UTC, and then not below \<open>-msPerDay\<close>.
\<close>

record timeZone =
  offsetUTC :: "int \<Rightarrow> int"
  offsetLocal :: "int \<Rightarrow> int"

text \<open>A zone with one offset all year, such as India's \<open>fixedZone 19800000\<close>.\<close>

definition fixedZone :: "int \<Rightarrow> timeZone" where
  "fixedZone c = \<lparr> offsetUTC = (\<lambda>t. c), offsetLocal = (\<lambda>t. c) \<rparr>"

text \<open>
  A text \<open>YYYY-MM-DD\<close> is a date when its numbers are a day of the calendar. (Engines
  differ on the days 29 to 31 of a shorter month, which a date input does not give; they
  are taken as no date.)
\<close>

definition validIso :: "isoDate \<Rightarrow> bool" where
  "validIso d =
     (0 \<le> year d \<and> year d \<le> 9999 \<and> 1 \<le> month d \<and> month d \<le> 12 \<and> 1 \<le> day d
      \<and> day d \<le> daysInMonth (year d) (month d - 1))"

definition isoFields :: "isoDate \<Rightarrow> jsDate" where
  "isoFields d = \<lparr> getFullYear = year d, getMonth = month d - 1, getDate = day d \<rparr>"

text \<open>The time value of \<open>new Date('YYYY-MM-DD')\<close>: midnight of that day in UTC.\<close>

definition utcMidnight :: "isoDate \<Rightarrow> int" where
  "utcMidnight d = dayNumber (isoFields d) * msPerDay"

text \<open>\<open>new Date(s).getTime()\<close>: \<open>NaN\<close> for the blank text and for a text that is no date.\<close>

definition parsedTime :: "isoDate option \<Rightarrow> int option" where
  "parsedTime s =
     (case s of
        None \<Rightarrow> None
      | Some d \<Rightarrow> if validIso d then Some (utcMidnight d) else None)"

text \<open>The day before and the day after a calendar day.\<close>

definition validDate :: "jsDate \<Rightarrow> bool" where
  "validDate d =
     (0 \<le> getMonth d \<and> getMonth d \<le> 11 \<and> 1 \<le> getDate d
      \<and> getDate d \<le> daysInMonth (getFullYear d) (getMonth d))"

definition nextDay :: "jsDate \<Rightarrow> jsDate" where
  "nextDay d =
     (if getDate d < daysInMonth (getFullYear d) (getMonth d)
      then d\<lparr> getDate := getDate d + 1 \<rparr>
      else if getMonth d < 11
      then d\<lparr> getMonth := getMonth d + 1, getDate := 1 \<rparr>
      else \<lparr> getFullYear = getFullYear d + 1, getMonth = 0, getDate = 1 \<rparr>)"

definition prevDay :: "jsDate \<Rightarrow> jsDate" where
  "prevDay d =
     (if 1 < getDate d
      then d\<lparr> getDate := getDate d - 1 \<rparr>
      else if 0 < getMonth d
      then d\<lparr> getMonth := getMonth d - 1,
              getDate := daysInMonth (getFullYear d) (getMonth d - 1) \<rparr>
      else \<lparr> getFullYear = getFullYear d - 1, getMonth = 11, getDate = 31 \<rparr>)"

text \<open>
  The local fields of \<open>new Date(s)\<close>. Midnight UTC of the day written falls on that day
  in a zone whose offset then is zero or positive, and on the day before in a zone whose
  offset then is negative.
\<close>

definition newDate :: "timeZone \<Rightarrow> isoDate option \<Rightarrow> jsDate option" where
  "newDate z s =
     (case s of
        None \<Rightarrow> None
      | Some d \<Rightarrow>
          if \<not> validIso d then None
          else if offsetUTC z (utcMidnight d) < 0 then Some (prevDay (isoFields d))
          else Some (isoFields d))"

text \<open>
  \<open>new Date(y, m, d).getTime()\<close>, the only use the program makes of such a date: a year
  from 0 to 99 stands for \<open>1900 + y\<close>, the fields give a time on the local clock (midnight
  of the day), and the zone's offset at that local time is taken off.
\<close>

definition newDateYMD_getTime :: "timeZone \<Rightarrow> int \<Rightarrow> int \<Rightarrow> int \<Rightarrow> int" where
  "newDateYMD_getTime z y m d =
     (let yr = (if 0 \<le> y \<and> y \<le> 99 then 1900 + y else y);
          t = dayNumber \<lparr> getFullYear = yr, getMonth = m, getDate = d \<rparr> * msPerDay
      in t - offsetLocal z t)"

text \<open>
  The same with the fields of a date that can be invalid: \<open>NaN\<close> arguments give an
  \<open>Invalid Date\<close>, whose time is \<open>NaN\<close>.
\<close>

definition midnightTime :: "timeZone \<Rightarrow> jsDate option \<Rightarrow> int option" where
  "midnightTime z dt =
     map_option (\<lambda>f. newDateYMD_getTime z (getFullYear f) (getMonth f) (getDate f)) dt"

text \<open>\<open>>=\<close>, \<open><=\<close> and \<open>===\<close> on numbers: false when an operand is \<open>NaN\<close>.\<close>

fun jsGe :: "int option \<Rightarrow> int option \<Rightarrow> bool" where
  "jsGe (Some a) (Some b) = (a \<ge> b)"
| "jsGe _ _ = False"

fun jsLe :: "int option \<Rightarrow> int option \<Rightarrow> bool" where
  "jsLe (Some a) (Some b) = (a \<le> b)"
| "jsLe _ _ = False"

fun jsEq :: "int option \<Rightarrow> int option \<Rightarrow> bool" where
  "jsEq (Some a) (Some b) = (a = b)"
| "jsEq _ _ = False"

section \<open>The report filter (AdminDashboard.tsx, DriverDashboard.tsx)\<close>

text \<open>
  The date part of the filter callback, the same text in both dashboards. \<open>today\<close> is
  \<open>new Date()\<close>, given by its local fields; the custom bounds are the values of two date
  inputs, \<open>None\<close> for the blank text \<open>''\<close>.
  \<^verbatim>\<open>
  const reportDate = new Date(r.date);
  const today = new Date();
  const current = new Date(today.getFullYear(), today.getMonth(), today.getDate()).getTime();
  const rTime = new Date(reportDate.getFullYear(), reportDate.getMonth(), reportDate.getDate()).getTime();
  if (dateFilter === 'today') { return rTime === current; }
  if (dateFilter === 'week') {
    const sevenDaysAgo = current - (7 * 24 * 60 * 60 * 1000);
    return rTime >= sevenDaysAgo;
  }
  if (dateFilter === 'month') {
    return reportDate.getMonth() === today.getMonth() && reportDate.getFullYear() === today.getFullYear();
  }
  if (dateFilter === 'year') { return reportDate.getFullYear() === today.getFullYear(); }
  if (dateFilter === 'custom') {
    if (!customStart || !customEnd) return true;
    const start = new Date(customStart);
    const end = new Date(customEnd);
    const startTime = new Date(start.getFullYear(), start.getMonth(), start.getDate()).getTime();
    const endTime = new Date(end.getFullYear(), end.getMonth(), end.getDate()).getTime();
    return rTime >= startTime && rTime <= endTime;
  }
  return true; // 'all'
  \<close>
\<close>

definition dateFilterMatches ::
  "timeZone \<Rightarrow> string \<Rightarrow> isoDate option \<Rightarrow> isoDate option \<Rightarrow> jsDate \<Rightarrow> 'a DailyReport
     \<Rightarrow> bool" where
  "dateFilterMatches z dateFilter customStart customEnd today r =
     (let reportDate = newDate z (date r);
          current = midnightTime z (Some today);
          rTime = midnightTime z reportDate
      in if dateFilter = ''today'' then jsEq rTime current
         else if dateFilter = ''week'' then
           (let sevenDaysAgo = map_option (\<lambda>c. c - (7 * 24 * 60 * 60 * 1000)) current
            in jsGe rTime sevenDaysAgo)
         else if dateFilter = ''month'' then
           jsEq (map_option getMonth reportDate) (Some (getMonth today))
           \<and> jsEq (map_option getFullYear reportDate) (Some (getFullYear today))
         else if dateFilter = ''year'' then
           jsEq (map_option getFullYear reportDate) (Some (getFullYear today))
         else if dateFilter = ''custom'' then
           (case (customStart, customEnd) of
              (Some cs, Some ce) \<Rightarrow>
                let start = newDate z (Some cs);
                    end = newDate z (Some ce);
                    startTime = midnightTime z start;
                    endTime = midnightTime z end
                in jsGe rTime startTime \<and> jsLe rTime endTime
            | _ \<Rightarrow> True)
         else True)"

text \<open>
  \<open>Array.prototype.sort\<close> with a comparator is a stable sort that takes a \<open>NaN\<close> from the
  comparator as 0. For a comparator that orders by a key, its result is the one the
  stable insertion sort gives; for another comparator the result depends on the engine's
  algorithm, of which the insertion sort is one.
\<close>

fun insertBy :: "('a \<Rightarrow> 'a \<Rightarrow> int option) \<Rightarrow> 'a \<Rightarrow> 'a list \<Rightarrow> 'a list" where
  "insertBy cmp x [] = [x]"
| "insertBy cmp x (y # ys) =
     (if (case cmp x y of None \<Rightarrow> 0 | Some v \<Rightarrow> v) \<le> 0 then x # y # ys
      else y # insertBy cmp x ys)"

definition arraySort :: "('a \<Rightarrow> 'a \<Rightarrow> int option) \<Rightarrow> 'a list \<Rightarrow> 'a list" where
  "arraySort cmp xs = foldr (insertBy cmp) xs []"

text \<open>
  \<open>(a, b) => new Date(b.date).getTime() - new Date(a.date).getTime()\<close>, which is \<open>NaN\<close>
  when one of the two reports has no date.
\<close>

definition byDateDescending :: "'a DailyReport \<Rightarrow> 'a DailyReport \<Rightarrow> int option" where
  "byDateDescending a b =
     (case (parsedTime (date b), parsedTime (date a)) of
        (Some tb, Some ta) \<Rightarrow> Some (tb - ta)
      | _ \<Rightarrow> None)"

text \<open>
  \<open>filteredReports\<close> of the admin dashboard:
  \<^verbatim>\<open>
  reports.filter(r => {
    if (filterDriver !== 'all' && r.driverId !== filterDriver) return false;
    ...
  }).sort((a, b) => new Date(b.date).getTime() - new Date(a.date).getTime())
  \<close>
\<close>

definition filteredReports ::
  "timeZone \<Rightarrow> string \<Rightarrow> string \<Rightarrow> isoDate option \<Rightarrow> isoDate option \<Rightarrow> jsDate
     \<Rightarrow> 'a DailyReport list \<Rightarrow> 'a DailyReport list" where
  "filteredReports z filterDriver dateFilter customStart customEnd today reports =
     arraySort byDateDescending
       (filter (\<lambda>r. if filterDriver \<noteq> ''all'' \<and> driverId r \<noteq> filterDriver then False
                     else dateFilterMatches z dateFilter customStart customEnd today r)
               reports)"

text \<open>
  \<open>myReports\<close> of the driver dashboard:
  \<^verbatim>\<open>
  reports.filter(r => {
    if (r.driverId !== driver.id) return false;
    ...
  }).sort((a, b) => new Date(b.date).getTime() - new Date(a.date).getTime())
  \<close>
\<close>

definition myReports ::
  "timeZone \<Rightarrow> Driver \<Rightarrow> string \<Rightarrow> isoDate option \<Rightarrow> isoDate option \<Rightarrow> jsDate
     \<Rightarrow> 'a DailyReport list \<Rightarrow> 'a DailyReport list" where
  "myReports z driver dateFilter customStart customEnd today reports =
     arraySort byDateDescending
       (filter (\<lambda>r. if driverId r \<noteq> driver_id driver then False
                     else dateFilterMatches z dateFilter customStart customEnd today r)
               reports)"

section \<open>The persistence adapter (storageService)\<close>







text \<open>
  The outcome of the query for the admin password: it throws, or gives \<open>{ data, error }\<close>
  with \<open>data\<close> the \<open>value\<close> of the row found, if any.
\<close>

datatype pwdResult = Thrown | Result "string option" "string option"

text \<open>
  \<^verbatim>\<open>
  export const getAdminPassword = async (): Promise<string> => {
      try {
          const { data, error } = await supabase.from('app_settings')
              .select('value').eq('key', 'admin_pwd').single();
          if (error) throw error;
          if (!data) return 'admin';
          return data.value;
      } catch (err) {
          const stored = localStorage.getItem(LS_ADMIN_PWD);
          return stored || 'admin';
      }
  };
  \<close>
  \<open>stored\<close> is the entry \<open>tyc_admin_pwd\<close> of \<open>localStorage\<close>, \<open>None\<close> when unset.
\<close>

definition getAdminPassword :: "pwdResult \<Rightarrow> string option \<Rightarrow> string" where
  "getAdminPassword res stored =
     (let fallback = (case stored of
                        None \<Rightarrow> ''admin''
                      | Some st \<Rightarrow> if st = [] then ''admin'' else st)
      in case res of
           Thrown \<Rightarrow> fallback
         | Result data error \<Rightarrow>
             if error \<noteq> None then fallback
             else (case data of None \<Rightarrow> ''admin'' | Some v \<Rightarrow> v))"

section \<open>Predicates used to state the properties\<close>

text \<open>\<open>Number.isFinite\<close>, \<open>Number.isNaN\<close> and \<open>x >= 0\<close>.\<close>

fun isFiniteNum :: "jsnum \<Rightarrow> bool" where
  "isFiniteNum (Fin _) = True"
| "isFiniteNum _ = False"

fun geZero :: "jsnum \<Rightarrow> bool" where
  "geZero (Fin x) = (0 \<le> x)"
| "geZero PosInf = True"
| "geZero _ = False"

text \<open>\<open>typeof val === 'number'\<close>\<close>

fun isNumber :: "jsval \<Rightarrow> bool" where
  "isNumber (Num _) = True"
| "isNumber _ = False"

text \<open>
  No field of the form holds a number: the form's inputs put the typed text, a string,
  into the state, which starts as empty strings.
\<close>

definition noNumberField :: "ReportFormState \<Rightarrow> bool" where
  "noNumberField st =
     (\<not> isNumber (local (form_income st)) \<and> \<not> isNumber (outstation (form_income st))
      \<and> \<not> isNumber (mixed (form_income st)) \<and> \<not> isNumber (fuel (form_expenses st))
      \<and> \<not> isNumber (maintenance (form_expenses st)) \<and> \<not> isNumber (toll (form_expenses st))
      \<and> \<not> isNumber (other (form_expenses st)) \<and> \<not> isNumber (salary (form_expenses st)))"

text \<open>\<open>a == b\<close> on numbers: false when an operand is \<open>NaN\<close>.\<close>

definition jsNumEq :: "jsnum \<Rightarrow> jsnum \<Rightarrow> bool" where
  "jsNumEq a b = (a \<noteq> NaN \<and> b \<noteq> NaN \<and> a = b)"

text \<open>
  The invariant of the derived fields, in the spec's words: total income \<open>==\<close> the sum of
  the three income fields, total expenses \<open>==\<close> the sum of the four expense fields and the
  driver's salary, net profit \<open>==\<close> their difference.
\<close>

definition derivedTotalsHold :: "jsnum DailyReport \<Rightarrow> bool" where
  "derivedTotalsHold r =
     (jsNumEq (totalIncome r)
        (jsadd (jsadd (local (income r)) (outstation (income r))) (mixed (income r)))
      \<and> jsNumEq (totalExpenses r)
        (jsadd (jsadd (jsadd (jsadd (fuel (expenses r)) (maintenance (expenses r)))
                             (toll (expenses r)))
                      (other (expenses r)))
               (driverSalary r))
      \<and> jsNumEq (netProfit r) (jssub (totalIncome r) (totalExpenses r)))"

text \<open>The spec's end-to-end scenario: local income 500, fuel 100, salary 50.\<close>

definition scenarioForm :: ReportFormState where
  "scenarioForm =
     \<lparr> form_date = Some \<lparr> year = 2024, month = 3, day = 10 \<rparr>,
       form_kmsDriven = ''120'',
       form_loginTime = ''08:00'',
       form_logoutTime = [],
       form_income = \<lparr> local = Str ''500'', outstation = Str ''0'', mixed = Str ''0'' \<rparr>,
       form_expenses = \<lparr> fuel = Str ''100'', maintenance = Str ''0'', toll = Str ''0'',
                         other = Str ''0'', salary = Str ''50'' \<rparr>,
       form_notes = [] \<rparr>"

text \<open>A form whose local income and fuel are texts of 310 digits.\<close>

definition overflowForm :: ReportFormState where
  "overflowForm =
     \<lparr> form_date = Some \<lparr> year = 2024, month = 3, day = 10 \<rparr>,
       form_kmsDriven = ''120'',
       form_loginTime = ''08:00'',
       form_logoutTime = [],
       form_income = \<lparr> local = Str (CHR ''1'' # replicate 309 CHR ''0''),
                       outstation = Str ''0'', mixed = Str ''0'' \<rparr>,
       form_expenses = \<lparr> fuel = Str (CHR ''1'' # replicate 309 CHR ''0''),
                         maintenance = Str ''0'', toll = Str ''0'', other = Str ''0'',
                         salary = Str ''50'' \<rparr>,
       form_notes = [] \<rparr>"

text \<open>
  A stored report of a driver, with no amounts, for the examples: dated, and with the
  date cleared.
\<close>

definition reportOn :: "string \<Rightarrow> string \<Rightarrow> isoDate \<Rightarrow> jsnum DailyReport" where
  "reportOn rid did d =
     \<lparr> report_id = rid, driverId = did, driverName = [], date = Some d,
       kmsDriven = Num (Fin 0), loginTime = ''00:00'', logoutTime = ''00:00'',
       income = \<lparr> local = Fin 0, outstation = Fin 0, mixed = Fin 0 \<rparr>,
       expenses = \<lparr> fuel = Fin 0, maintenance = Fin 0, toll = Fin 0, other = Fin 0 \<rparr>,
       totalIncome = Fin 0, totalExpenses = Fin 0, driverSalary = Fin 0,
       netProfit = Fin 0, report_notes = [], timestamp = 0 \<rparr>"

definition undatedReport :: "string \<Rightarrow> string \<Rightarrow> jsnum DailyReport" where
  "undatedReport rid did = (reportOn rid did \<lparr> year = 0, month = 0, day = 0 \<rparr>)\<lparr> date := None \<rparr>"

text \<open>The day number of a report's date, when it has one.\<close>

definition reportDay :: "'a DailyReport \<Rightarrow> int option" where
  "reportDay r =
     (case date r of
        None \<Rightarrow> None
      | Some d \<Rightarrow> if validIso d then Some (dayNumber (isoFields d)) else None)"


text \<open>``In the inclusive range between the start day and the end day''.\<close>

definition withinCustomRange :: "isoDate \<Rightarrow> isoDate \<Rightarrow> 'a DailyReport \<Rightarrow> bool" where
  "withinCustomRange cs ce r =
     (case reportDay r of
        None \<Rightarrow> False
      | Some n \<Rightarrow> dayNumber (isoFields cs) \<le> n \<and> n \<le> dayNumber (isoFields ce))"


text \<open>``Sorted descending by date'': each report is dated no earlier than those after it.\<close>

definition descendingByDate :: "'a DailyReport list \<Rightarrow> bool" where
  "descendingByDate xs = sorted_wrt (\<lambda>a b. jsGe (reportDay a) (reportDay b)) xs"




text \<open>
  Two conditions on the time zone and the dates under which the filter sees the days as
  they are written. In the zone, a later day starts at a later instant (true of every
  zone in use, daylight saving included); and the year the filter reads for a date, which
  is the year of the local day, is 100 or more, so that it is not taken for \<open>1900 + y\<close>.
\<close>

definition midnightsIncrease :: "timeZone \<Rightarrow> bool" where
  "midnightsIncrease z =
     (\<forall>a b. a < b \<longrightarrow>
        a * msPerDay - offsetLocal z (a * msPerDay) < b * msPerDay - offsetLocal z (b * msPerDay))"

definition readsYearAsWritten :: "timeZone \<Rightarrow> isoDate \<Rightarrow> bool" where
  "readsYearAsWritten z d =
     (case newDate z (Some d) of
        None \<Rightarrow> False
      | Some f \<Rightarrow> 100 \<le> getFullYear f)"

section \<open>Properties of the numeric parser\<close>

lemma not_isDigit_dot [simp]: "\<not> isDigit CHR ''.''"
  by (simp add: isDigit_def)

lemma splitDot_no_dot: "CHR ''.'' \<notin> set a \<Longrightarrow> splitDot a = [a]"
  by (induction a) auto

lemma splitDot_at_dot:
  "CHR ''.'' \<notin> set a \<Longrightarrow> splitDot (a @ CHR ''.'' # r) = a # splitDot r"
  by (induction a) auto

lemma splitDot_not_Nil: "splitDot s \<noteq> []"
  by (induction s) auto

text \<open>What \<open>parseFloat\<close> reads of a text that starts with digits, a point and digits.\<close>

lemma parseFloat_numeral:
  assumes "\<forall>x\<in>set a. isDigit x" "\<forall>x\<in>set b. isDigit x" "t = [] \<or> hd t = CHR ''.''"
  shows "parseFloat (a @ CHR ''.'' # b @ t)
         = (if a = [] \<and> b = [] then NaN else round64 (decimalValue a b))"
proof -
  have ta: "takeWhile isDigit (a @ CHR ''.'' # b @ t) = a"
    using assms(1) by (simp add: takeWhile_append2)
  have da: "dropWhile isDigit (a @ CHR ''.'' # b @ t) = CHR ''.'' # b @ t"
    using assms(1) by (simp add: dropWhile_append2)
  have "takeWhile isDigit t = []"
    using assms(3) by (cases t) auto
  then have tb: "takeWhile isDigit (b @ t) = b"
    using assms(2) by (simp add: takeWhile_append2)
  show ?thesis
    unfolding parseFloat_def by (simp add: ta da tb)
qed

lemma parseFloat_digits:
  assumes "\<forall>x\<in>set a. isDigit x"
  shows "parseFloat a = (if a = [] then NaN else round64 (decimalValue a []))"
proof -
  have h: "takeWhile isDigit a = a" "dropWhile isDigit a = []"
    using assms by (simp_all add: takeWhile_eq_all_conv)
  show ?thesis
    unfolding parseFloat_def by (simp add: h)
qed

lemma parseFloat_second_dot:
  assumes "\<forall>x\<in>set a. isDigit x" "\<forall>x\<in>set b. isDigit x"
  shows "parseFloat (a @ CHR ''.'' # b @ CHR ''.'' # r) = parseFloat (a @ CHR ''.'' # b)"
  using parseFloat_numeral [OF assms, of "CHR ''.'' # r"] parseFloat_numeral [OF assms, of "[]"]
  by simp

text \<open>
  The branch of ReportForm's \<open>getVal\<close> for several points gives what \<open>parseFloat\<close>
  gives on the whole cleaned text, so both parsers compute the same function of a string.
\<close>

lemma ReportForm_getVal_clean:
  "ReportForm_getVal (Str s) = orZero (parseFloat (cleanNumeric s))"
proof -
  define c where "c = cleanNumeric s"
  have cl: "set c \<subseteq> {x. isDigit x \<or> x = CHR ''.''}"
    by (auto simp: c_def cleanNumeric_def)
  have main: "(if length (splitDot c) > 2
               then orZero (parseFloat (splitDot c ! 0 @ ''.'' @ splitDot c ! 1))
               else orZero (parseFloat c)) = orZero (parseFloat c)"
  proof (cases "CHR ''.'' \<in> set c")
    case False
    then show ?thesis by (simp add: splitDot_no_dot)
  next
    case True
    then obtain a r where c1: "c = a @ CHR ''.'' # r" and na: "CHR ''.'' \<notin> set a"
      by (auto dest: split_list_first)
    show ?thesis
    proof (cases "CHR ''.'' \<in> set r")
      case False
      then show ?thesis using na by (simp add: c1 splitDot_at_dot splitDot_no_dot)
    next
      case True
      then obtain b r' where r1: "r = b @ CHR ''.'' # r'" and nb: "CHR ''.'' \<notin> set b"
        by (auto dest: split_list_first)
      have da: "\<forall>x\<in>set a. isDigit x" and db: "\<forall>x\<in>set b. isDigit x"
        using cl na nb by (auto simp: c1 r1)
      have sp: "splitDot c = a # b # splitDot r'"
        using na nb by (simp add: c1 r1 splitDot_at_dot)
      have len: "length (splitDot c) > 2"
        using splitDot_not_Nil [of r'] by (cases "splitDot r'") (simp_all add: sp)
      have pf: "parseFloat c = parseFloat (a @ ''.'' @ b)"
        using parseFloat_second_dot [OF da db, of r'] by (simp add: c1 r1)
      show ?thesis
        using len by (simp add: sp pf)
    qed
  qed
  show ?thesis
  proof (cases "s = []")
    case True
    then show ?thesis
      by (simp add: ReportForm_getVal_def cleanNumeric_def parseFloat_def orZero_def)
  next
    case False
    then show ?thesis
      using main [unfolded c_def] by (simp add: ReportForm_getVal_def Let_def)
  qed
qed

lemma Dashboard_getVal_clean:
  "Dashboard_getVal numStr (Str s) = orZero (parseFloat (cleanNumeric s))"
  by (cases "s = []") (simp_all add: Dashboard_getVal_def cleanNumeric_def)

lemma orZero_NaN [simp]: "orZero NaN = Fin 0"
  by (simp add: orZero_def)

lemmas parser_defs =
  ReportForm_getVal_def Dashboard_getVal_def cleanNumeric_def isDigit_def parseFloat_def
  orZero_def round64_def overflow64_def decimalValue_def digitsVal_def digitVal_def

text \<open>
  C1 as the claim states it fails: \<open>..1.2.3\<close> has no digit before its second point, so
  both parsers give 0 for it, not 1.2.
\<close>

theorem getVal_two_leading_points_counterexample:
  "ReportForm_getVal (Str ''..1.2.3'') = Fin 0
   \<and> Dashboard_getVal (\<lambda>n. []) (Str ''..1.2.3'') = Fin 0
   \<and> ReportForm_getVal (Str ''..1.2.3'') \<noteq> Fin (6 / 5)"
  by (simp add: parser_defs)

text \<open>
  C1, amended. For every string, both parsers (\<open>getVal\<close> of the report form and of the
  dashboards) strip every character that is not a digit or a decimal point and give
  \<open>parseFloat\<close> of what remains, or 0 when that is \<open>NaN\<close> or zero. What is parsed is the
  leading numeral of the cleaned text: its leading digits \<open>a\<close>, and, when a point follows
  them, the digits \<open>b\<close> between that point and the next one; whatever starts at a second
  point is dropped, not merged into the fraction. With no digit in that numeral (an empty
  text, or a text whose first two points have no digit before them) the result is 0. So
  \<open>parse("1,234.56abc") = 1234.56\<close>, \<open>parse("") = 0\<close>, \<open>parse("1.2.3") = 1.2\<close> and
  \<open>parse("..1.2.3") = 0\<close>.
\<close>

theorem getVal_reads_leading_numeral:
  "ReportForm_getVal (Str s) = orZero (parseFloat (cleanNumeric s))
   \<and> Dashboard_getVal numStr (Str s) = ReportForm_getVal (Str s)
   \<and> ((\<forall>x\<in>set a. isDigit x) \<and> (\<forall>x\<in>set b. isDigit x) \<and> (t = [] \<or> hd t = CHR ''.'')
        \<and> cleanNumeric s = a @ ''.'' @ b @ t
      \<longrightarrow> ReportForm_getVal (Str s)
          = (if a = [] \<and> b = [] then Fin 0 else orZero (round64 (decimalValue a b))))
   \<and> ((\<forall>x\<in>set a. isDigit x) \<and> cleanNumeric s = a
      \<longrightarrow> ReportForm_getVal (Str s)
          = (if a = [] then Fin 0 else orZero (round64 (decimalValue a []))))
   \<and> ReportForm_getVal (Str ''1,234.56abc'') = Fin (123456 / 100)
   \<and> ReportForm_getVal (Str '''') = Fin 0
   \<and> ReportForm_getVal (Str ''1.2.3'') = Fin (12 / 10)
   \<and> ReportForm_getVal (Str ''..1.2.3'') = Fin 0"
proof -
  have 1: "ReportForm_getVal (Str s) = orZero (parseFloat (cleanNumeric s))"
    by (rule ReportForm_getVal_clean)
  have 2: "Dashboard_getVal numStr (Str s) = ReportForm_getVal (Str s)"
    by (simp only: ReportForm_getVal_clean Dashboard_getVal_clean)
  have 3: "ReportForm_getVal (Str s)
      = (if a = [] \<and> b = [] then Fin 0 else orZero (round64 (decimalValue a b)))"
    if "(\<forall>x\<in>set a. isDigit x) \<and> (\<forall>x\<in>set b. isDigit x) \<and> (t = [] \<or> hd t = CHR ''.'')
        \<and> cleanNumeric s = a @ ''.'' @ b @ t"
    using that parseFloat_numeral [of a b t] by (simp add: 1)
  have 4: "ReportForm_getVal (Str s)
      = (if a = [] then Fin 0 else orZero (round64 (decimalValue a [])))"
    if "(\<forall>x\<in>set a. isDigit x) \<and> cleanNumeric s = a"
    using that parseFloat_digits [of a] by (simp add: 1)
  have 5: "ReportForm_getVal (Str ''1,234.56abc'') = Fin (123456 / 100)"
    "ReportForm_getVal (Str '''') = Fin 0"
    "ReportForm_getVal (Str ''1.2.3'') = Fin (12 / 10)"
    "ReportForm_getVal (Str ''..1.2.3'') = Fin 0"
    by (simp_all add: parser_defs)
  from 1 2 3 4 5 show ?thesis by blast
qed

theorem getVal_reads_leading_numeral_witness:
  "cleanNumeric ''Rs 12.50.75'' = ''12'' @ ''.'' @ ''50'' @ ''.75''
   \<and> ReportForm_getVal (Str ''Rs 12.50.75'') = Fin (25 / 2)
   \<and> Dashboard_getVal (\<lambda>n. []) (Str ''Rs 12.50.75'') = Fin (25 / 2)"
proof -
  have h: "(\<forall>x\<in>set ''12''. isDigit x) \<and> (\<forall>x\<in>set ''50''. isDigit x)
      \<and> (''.75'' = [] \<or> hd ''.75'' = CHR ''.'')
      \<and> cleanNumeric ''Rs 12.50.75'' = ''12'' @ ''.'' @ ''50'' @ ''.75''"
    by (simp add: cleanNumeric_def isDigit_def)
  have v: "orZero (round64 (decimalValue ''12'' ''50'')) = Fin (25 / 2)"
    by (simp add: parser_defs)
  note T = getVal_reads_leading_numeral
    [of "''Rs 12.50.75''" "\<lambda>n. []" "''12''" "''50''" "''.75''"]
  from T h have r: "ReportForm_getVal (Str ''Rs 12.50.75'')
      = (if ''12'' = [] \<and> ''50'' = [] then Fin 0
         else orZero (round64 (decimalValue ''12'' ''50'')))"
    by blast
  from T have d: "Dashboard_getVal (\<lambda>n. []) (Str ''Rs 12.50.75'')
      = ReportForm_getVal (Str ''Rs 12.50.75'')"
    by blast
  have "ReportForm_getVal (Str ''Rs 12.50.75'') = Fin (25 / 2)"
    using r v by simp
  with h d show ?thesis by simp
qed

section \<open>Non-negative amounts\<close>

lemma geZero_round64: "0 \<le> x \<Longrightarrow> geZero (round64 x)"
  by (simp add: round64_def overflow64_def)

lemma geZero_parseFloat: "parseFloat s = NaN \<or> geZero (parseFloat s)"
  by (simp add: parseFloat_def Let_def decimalValue_def geZero_round64)

lemma geZero_orZero_parseFloat: "geZero (orZero (parseFloat s))"
  using geZero_parseFloat [of s] by (auto simp: orZero_def)

lemma geZero_not_NaN: "geZero x \<Longrightarrow> x \<noteq> NaN"
  by (cases x) auto

lemma geZero_jsadd: "geZero a \<Longrightarrow> geZero b \<Longrightarrow> geZero (jsadd a b)"
  by (cases a; cases b) (simp_all add: geZero_round64)

lemma geZero_Dashboard_getVal: "geZero (Dashboard_getVal numStr v)"
  by (simp add: Dashboard_getVal_def Let_def geZero_orZero_parseFloat)

lemma geZero_ReportForm_getVal: "\<not> isNumber v \<Longrightarrow> geZero (ReportForm_getVal v)"
proof (cases v)
  case (Str s)
  then show ?thesis
    by (simp add: ReportForm_getVal_clean geZero_orZero_parseFloat)
qed (simp_all add: ReportForm_getVal_def)

text \<open>A text of 310 digits is beyond the largest binary64 and parses to \<open>Infinity\<close>.\<close>

lemma foldl_zeros:
  "foldl (\<lambda>a c. 10 * a + digitVal c) a (replicate n CHR ''0'') = a * 10 ^ n"
  by (induction n arbitrary: a) (simp_all add: digitVal_def)

lemma getVal_overflow: "ReportForm_getVal (Str (CHR ''1'' # replicate 309 CHR ''0'')) = PosInf"
proof -
  let ?s = "CHR ''1'' # replicate 309 CHR ''0''"
  have d: "\<forall>x\<in>set ?s. isDigit x"
    by (simp add: isDigit_def)
  then have c: "cleanNumeric ?s = ?s"
    unfolding cleanNumeric_def by (intro filter_True) blast
  have one: "digitVal CHR ''1'' = 1"
    by (simp add: digitVal_def)
  have v: "digitsVal ?s = 10 ^ 309"
    by (simp add: digitsVal_def foldl_zeros one)
  have e: "digitsVal [] = 0"
    by (simp add: digitsVal_def)
  have "parseFloat ?s = round64 (decimalValue ?s [])"
    using parseFloat_digits [OF d] by simp
  also have "\<dots> = round64 (10 ^ 309)"
    by (simp only: decimalValue_def v e) simp
  also have "\<dots> = PosInf"
    by (simp add: round64_def overflow64_def)
  finally show ?thesis
    by (simp only: ReportForm_getVal_clean c orZero_def truthyNum.simps if_True)
qed

text \<open>
  C9 as the claim states it fails: the report form's \<open>getVal\<close> returns a number as it
  is, so a negative number or \<open>NaN\<close> comes back unchanged, and a long text of digits
  overflows to \<open>Infinity\<close>.
\<close>

theorem getVal_not_always_finite_nonnegative_counterexample:
  "ReportForm_getVal (Num (Fin (- 5))) = Fin (- 5)
   \<and> \<not> geZero (ReportForm_getVal (Num (Fin (- 5))))
   \<and> ReportForm_getVal (Num NaN) = NaN
   \<and> \<not> isFiniteNum (ReportForm_getVal (Str (CHR ''1'' # replicate 309 CHR ''0'')))"
  by (simp add: getVal_overflow) (simp add: ReportForm_getVal_def)

text \<open>
  C9, amended. The report form's \<open>getVal\<close> returns a number input unchanged (so it can be
  negative, \<open>NaN\<close> or infinite), and for every other input (string, null, undefined) a
  number that is not \<open>NaN\<close> and is \<open>\<ge> 0\<close>; the dashboards' \<open>getVal\<close> returns a number that
  is not \<open>NaN\<close> and is \<open>\<ge> 0\<close> for every input, numbers included. The result need not be
  finite (\<open>Infinity\<close> is \<open>\<ge> 0\<close>). Consequently, when no field of the form holds a number,
  as is the case for the text the form's inputs store, every income field, every expense
  field, the salary, \<open>totalIncome\<close> and \<open>totalExpenses\<close> written by report creation are
  \<open>\<ge> 0\<close> and not \<open>NaN\<close>.
\<close>

theorem getVal_nonnegative:
  "(\<not> isNumber v \<longrightarrow> ReportForm_getVal v \<noteq> NaN \<and> geZero (ReportForm_getVal v))
   \<and> ReportForm_getVal (Num n) = n
   \<and> Dashboard_getVal numStr v \<noteq> NaN \<and> geZero (Dashboard_getVal numStr v)
   \<and> (noNumberField st \<longrightarrow>
        (let r = ReportForm_handleSubmit driver st uuid now
         in geZero (local (income r)) \<and> geZero (outstation (income r))
            \<and> geZero (mixed (income r)) \<and> geZero (fuel (expenses r))
            \<and> geZero (maintenance (expenses r)) \<and> geZero (toll (expenses r))
            \<and> geZero (other (expenses r)) \<and> geZero (driverSalary r)
            \<and> geZero (totalIncome r) \<and> geZero (totalExpenses r)))"
proof -
  have 1: "ReportForm_getVal v \<noteq> NaN \<and> geZero (ReportForm_getVal v)" if "\<not> isNumber v"
    using that by (simp add: geZero_ReportForm_getVal geZero_not_NaN)
  have 2: "ReportForm_getVal (Num n) = n"
    by (simp add: ReportForm_getVal_def)
  have 3: "Dashboard_getVal numStr v \<noteq> NaN" "geZero (Dashboard_getVal numStr v)"
    by (simp_all add: geZero_Dashboard_getVal geZero_not_NaN)
  have 4: "let r = ReportForm_handleSubmit driver st uuid now
         in geZero (local (income r)) \<and> geZero (outstation (income r))
            \<and> geZero (mixed (income r)) \<and> geZero (fuel (expenses r))
            \<and> geZero (maintenance (expenses r)) \<and> geZero (toll (expenses r))
            \<and> geZero (other (expenses r)) \<and> geZero (driverSalary r)
            \<and> geZero (totalIncome r) \<and> geZero (totalExpenses r)"
    if "noNumberField st"
    using that
    by (simp add: noNumberField_def ReportForm_handleSubmit_def ReportForm_totalIncome_def
        ReportForm_totalExpenses_def ReportForm_driverSalary_def geZero_ReportForm_getVal
        geZero_jsadd)
  from 1 2 3 4 show ?thesis by blast
qed

theorem getVal_nonnegative_witness:
  "noNumberField scenarioForm
   \<and> geZero (ReportForm_getVal (Str ''-7.5''))
   \<and> ReportForm_getVal (Str ''-7.5'') = Fin (15 / 2)
   \<and> geZero (totalIncome (ReportForm_handleSubmit
        \<lparr> driver_id = ''1'', driver_name = ''Ramesh Kumar'', vehicle = ''TN 38 BR 1234'',
          pin = ''1234'' \<rparr> scenarioForm ''r1'' 0))
   \<and> geZero (totalExpenses (ReportForm_handleSubmit
        \<lparr> driver_id = ''1'', driver_name = ''Ramesh Kumar'', vehicle = ''TN 38 BR 1234'',
          pin = ''1234'' \<rparr> scenarioForm ''r1'' 0))"
proof -
  have h: "noNumberField scenarioForm" "\<not> isNumber (Str ''-7.5'')"
    by (simp_all add: noNumberField_def scenarioForm_def)
  have v: "ReportForm_getVal (Str ''-7.5'') = Fin (15 / 2)"
    by (simp add: parser_defs)
  note T = getVal_nonnegative [of "Str ''-7.5''" _ "\<lambda>n. []" scenarioForm
      "\<lparr> driver_id = ''1'', driver_name = ''Ramesh Kumar'', vehicle = ''TN 38 BR 1234'',
         pin = ''1234'' \<rparr>" "''r1''" 0]
  from T h show ?thesis
    by (simp add: Let_def v)
qed

section \<open>The derived totals\<close>

lemma jsadd_NaN_iff:
  "jsadd a b = NaN \<longleftrightarrow>
     a = NaN \<or> b = NaN \<or> (a = PosInf \<and> b = NegInf) \<or> (a = NegInf \<and> b = PosInf)"
  by (cases a; cases b) (simp_all add: round64_def)

lemma jssub_NaN: "jssub a b \<noteq> NaN \<Longrightarrow> a \<noteq> NaN \<and> b \<noteq> NaN"
  by (cases b) (auto simp: jssub_def jsadd_NaN_iff)

lemma jssub_geZero_NaN:
  "geZero a \<Longrightarrow> geZero b \<Longrightarrow> jssub a b = NaN \<longleftrightarrow> a = PosInf \<and> b = PosInf"
  by (cases a; cases b) (simp_all add: jssub_def round64_def)

text \<open>
  When the three derived fields are the three expressions, the equalities \<open>==\<close> hold
  exactly when the net profit is a number.
\<close>

lemma derivedTotalsHold_iff:
  assumes "totalIncome r
      = jsadd (jsadd (local (income r)) (outstation (income r))) (mixed (income r))"
    and "totalExpenses r
      = jsadd (jsadd (jsadd (jsadd (fuel (expenses r)) (maintenance (expenses r)))
                            (toll (expenses r)))
                     (other (expenses r)))
              (driverSalary r)"
    and "netProfit r = jssub (totalIncome r) (totalExpenses r)"
  shows "derivedTotalsHold r \<longleftrightarrow> netProfit r \<noteq> NaN"
proof
  assume "derivedTotalsHold r"
  then show "netProfit r \<noteq> NaN"
    unfolding derivedTotalsHold_def jsNumEq_def by blast
next
  assume n: "netProfit r \<noteq> NaN"
  with assms(3) have "totalIncome r \<noteq> NaN \<and> totalExpenses r \<noteq> NaN"
    using jssub_NaN [of "totalIncome r" "totalExpenses r"] by simp
  with n assms show "derivedTotalsHold r"
    unfolding derivedTotalsHold_def jsNumEq_def by metis
qed

lemmas ReportForm_defs =
  ReportForm_handleSubmit_def ReportForm_totalIncome_def ReportForm_totalExpenses_def
  ReportForm_driverSalary_def ReportForm_netProfit_def

lemma handleSubmit_totals_geZero:
  assumes "noNumberField st"
  shows "geZero (totalIncome (ReportForm_handleSubmit driver st uuid now))"
    and "geZero (totalExpenses (ReportForm_handleSubmit driver st uuid now))"
  using assms
  by (simp_all add: noNumberField_def ReportForm_defs geZero_ReportForm_getVal geZero_jsadd)

text \<open>
  C2 as the claim states it fails: with a local income and a fuel expense of 310 digits,
  which the form accepts, both totals are \<open>Infinity\<close> and the net profit stored is
  \<open>Infinity - Infinity\<close>, that is \<open>NaN\<close>, which is \<open>==\<close> to nothing.
\<close>

theorem derived_totals_overflow_counterexample:
  "\<not> derivedTotalsHold (ReportForm_handleSubmit
        \<lparr> driver_id = ''1'', driver_name = ''Ramesh Kumar'', vehicle = ''TN 38 BR 1234'',
          pin = ''1234'' \<rparr> overflowForm ''r1'' 0)
   \<and> totalIncome (ReportForm_handleSubmit
        \<lparr> driver_id = ''1'', driver_name = ''Ramesh Kumar'', vehicle = ''TN 38 BR 1234'',
          pin = ''1234'' \<rparr> overflowForm ''r1'' 0) = PosInf
   \<and> totalExpenses (ReportForm_handleSubmit
        \<lparr> driver_id = ''1'', driver_name = ''Ramesh Kumar'', vehicle = ''TN 38 BR 1234'',
          pin = ''1234'' \<rparr> overflowForm ''r1'' 0) = PosInf
   \<and> netProfit (ReportForm_handleSubmit
        \<lparr> driver_id = ''1'', driver_name = ''Ramesh Kumar'', vehicle = ''TN 38 BR 1234'',
          pin = ''1234'' \<rparr> overflowForm ''r1'' 0) = NaN"
proof -
  have v: "ReportForm_getVal (Str ''0'') = Fin 0" "ReportForm_getVal (Str ''50'') = Fin 50"
    by (simp_all add: parser_defs)
  show ?thesis
    by (simp add: derivedTotalsHold_def jsNumEq_def ReportForm_defs overflowForm_def
        getVal_overflow v jssub_def)
qed

text \<open>
  C2, amended. In every report produced by report creation and by an edit in either
  dashboard, the income fields, the expense fields and the salary are the parsed inputs,
  and the derived fields are recomputed from them (an edit does not depend on the totals
  stored before). \<open>totalIncome == income.local + income.outstation + income.mixed\<close> (the
  spec's \<open>income.other\<close> is the field \<open>mixed\<close>), \<open>totalExpenses == expenses.fuel +
  expenses.maintenance + expenses.toll + expenses.other + driverSalary\<close> and \<open>netProfit ==
  totalIncome - totalExpenses\<close> all hold of the stored fields unless the stored net profit
  is \<open>NaN\<close>. For an edit, and for a creation from a form that holds no number, the net
  profit is \<open>NaN\<close> exactly when total income and total expenses are both \<open>Infinity\<close>.
\<close>

theorem derived_totals_recomputed:
  "(derivedTotalsHold (ReportForm_handleSubmit driver st uuid now)
      \<longleftrightarrow> netProfit (ReportForm_handleSubmit driver st uuid now) \<noteq> NaN)
   \<and> (noNumberField st \<longrightarrow>
        (netProfit (ReportForm_handleSubmit driver st uuid now) = NaN
           \<longleftrightarrow> totalIncome (ReportForm_handleSubmit driver st uuid now) = PosInf
               \<and> totalExpenses (ReportForm_handleSubmit driver st uuid now) = PosInf))
   \<and> income (ReportForm_handleSubmit driver st uuid now)
       = \<lparr> local = ReportForm_getVal (local (form_income st)),
           outstation = ReportForm_getVal (outstation (form_income st)),
           mixed = ReportForm_getVal (mixed (form_income st)) \<rparr>
   \<and> expenses (ReportForm_handleSubmit driver st uuid now)
       = \<lparr> fuel = ReportForm_getVal (fuel (form_expenses st)),
           maintenance = ReportForm_getVal (maintenance (form_expenses st)),
           toll = ReportForm_getVal (toll (form_expenses st)),
           other = ReportForm_getVal (other (form_expenses st)) \<rparr>
   \<and> driverSalary (ReportForm_handleSubmit driver st uuid now)
       = ReportForm_getVal (salary (form_expenses st))
   \<and> (\<exists>r. handleUpdateReport numStr (Some e) = Some r
          \<and> (derivedTotalsHold r \<longleftrightarrow> netProfit r \<noteq> NaN)
          \<and> (netProfit r = NaN \<longleftrightarrow> totalIncome r = PosInf \<and> totalExpenses r = PosInf)
          \<and> income r = \<lparr> local = Dashboard_getVal numStr (local (income e)),
                         outstation = Dashboard_getVal numStr (outstation (income e)),
                         mixed = Dashboard_getVal numStr (mixed (income e)) \<rparr>
          \<and> expenses r = \<lparr> fuel = Dashboard_getVal numStr (fuel (expenses e)),
                           maintenance = Dashboard_getVal numStr (maintenance (expenses e)),
                           toll = Dashboard_getVal numStr (toll (expenses e)),
                           other = Dashboard_getVal numStr (other (expenses e)) \<rparr>
          \<and> driverSalary r = Dashboard_getVal numStr (driverSalary e)
          \<and> handleUpdateReport numStr
               (Some (e\<lparr> totalIncome := x, totalExpenses := y, netProfit := z \<rparr>)) = Some r)"
proof -
  let ?c = "ReportForm_handleSubmit driver st uuid now"
  have 1: "derivedTotalsHold ?c \<longleftrightarrow> netProfit ?c \<noteq> NaN"
    by (rule derivedTotalsHold_iff) (simp_all add: ReportForm_defs)
  have 2: "netProfit ?c = NaN \<longleftrightarrow> totalIncome ?c = PosInf \<and> totalExpenses ?c = PosInf"
    if "noNumberField st"
  proof -
    have "netProfit ?c = jssub (totalIncome ?c) (totalExpenses ?c)"
      by (simp add: ReportForm_defs)
    with handleSubmit_totals_geZero [OF that, of driver uuid now] show ?thesis
      by (simp add: jssub_geZero_NaN)
  qed
  have 3: "income ?c
       = \<lparr> local = ReportForm_getVal (local (form_income st)),
           outstation = ReportForm_getVal (outstation (form_income st)),
           mixed = ReportForm_getVal (mixed (form_income st)) \<rparr>"
    "expenses ?c
       = \<lparr> fuel = ReportForm_getVal (fuel (form_expenses st)),
           maintenance = ReportForm_getVal (maintenance (form_expenses st)),
           toll = ReportForm_getVal (toll (form_expenses st)),
           other = ReportForm_getVal (other (form_expenses st)) \<rparr>"
    "driverSalary ?c = ReportForm_getVal (salary (form_expenses st))"
    by (simp_all add: ReportForm_defs)
  obtain r where r: "handleUpdateReport numStr (Some e) = Some r"
    by (simp add: handleUpdateReport_def Let_def)
  then have f: "income r = \<lparr> local = Dashboard_getVal numStr (local (income e)),
                         outstation = Dashboard_getVal numStr (outstation (income e)),
                         mixed = Dashboard_getVal numStr (mixed (income e)) \<rparr>"
    "expenses r = \<lparr> fuel = Dashboard_getVal numStr (fuel (expenses e)),
                           maintenance = Dashboard_getVal numStr (maintenance (expenses e)),
                           toll = Dashboard_getVal numStr (toll (expenses e)),
                           other = Dashboard_getVal numStr (other (expenses e)) \<rparr>"
    "driverSalary r = Dashboard_getVal numStr (driverSalary e)"
    and t: "totalIncome r
      = jsadd (jsadd (local (income r)) (outstation (income r))) (mixed (income r))"
    "totalExpenses r
      = jsadd (jsadd (jsadd (jsadd (fuel (expenses r)) (maintenance (expenses r)))
                            (toll (expenses r)))
                     (other (expenses r)))
              (driverSalary r)"
    "netProfit r = jssub (totalIncome r) (totalExpenses r)"
    and s: "handleUpdateReport numStr
               (Some (e\<lparr> totalIncome := x, totalExpenses := y, netProfit := z \<rparr>)) = Some r"
    by (auto simp: handleUpdateReport_def Let_def)
  have 4: "derivedTotalsHold r \<longleftrightarrow> netProfit r \<noteq> NaN"
    by (rule derivedTotalsHold_iff [OF t])
  have "geZero (totalIncome r)" "geZero (totalExpenses r)"
    by (simp_all add: t f geZero_Dashboard_getVal geZero_jsadd)
  then have 5: "netProfit r = NaN \<longleftrightarrow> totalIncome r = PosInf \<and> totalExpenses r = PosInf"
    by (simp add: t(3) jssub_geZero_NaN)
  from r 4 5 f s have "\<exists>r. handleUpdateReport numStr (Some e) = Some r
          \<and> (derivedTotalsHold r \<longleftrightarrow> netProfit r \<noteq> NaN)
          \<and> (netProfit r = NaN \<longleftrightarrow> totalIncome r = PosInf \<and> totalExpenses r = PosInf)
          \<and> income r = \<lparr> local = Dashboard_getVal numStr (local (income e)),
                         outstation = Dashboard_getVal numStr (outstation (income e)),
                         mixed = Dashboard_getVal numStr (mixed (income e)) \<rparr>
          \<and> expenses r = \<lparr> fuel = Dashboard_getVal numStr (fuel (expenses e)),
                           maintenance = Dashboard_getVal numStr (maintenance (expenses e)),
                           toll = Dashboard_getVal numStr (toll (expenses e)),
                           other = Dashboard_getVal numStr (other (expenses e)) \<rparr>
          \<and> driverSalary r = Dashboard_getVal numStr (driverSalary e)
          \<and> handleUpdateReport numStr
               (Some (e\<lparr> totalIncome := x, totalExpenses := y, netProfit := z \<rparr>)) = Some r"
    by blast
  with 1 2 3 show ?thesis by blast
qed

theorem derived_totals_recomputed_witness:
  "noNumberField scenarioForm
   \<and> derivedTotalsHold (ReportForm_handleSubmit
        \<lparr> driver_id = ''1'', driver_name = ''Ramesh Kumar'', vehicle = ''TN 38 BR 1234'',
          pin = ''1234'' \<rparr> scenarioForm ''r1'' 0)
   \<and> totalIncome (ReportForm_handleSubmit
        \<lparr> driver_id = ''1'', driver_name = ''Ramesh Kumar'', vehicle = ''TN 38 BR 1234'',
          pin = ''1234'' \<rparr> scenarioForm ''r1'' 0) = Fin 500
   \<and> totalExpenses (ReportForm_handleSubmit
        \<lparr> driver_id = ''1'', driver_name = ''Ramesh Kumar'', vehicle = ''TN 38 BR 1234'',
          pin = ''1234'' \<rparr> scenarioForm ''r1'' 0) = Fin 150
   \<and> netProfit (ReportForm_handleSubmit
        \<lparr> driver_id = ''1'', driver_name = ''Ramesh Kumar'', vehicle = ''TN 38 BR 1234'',
          pin = ''1234'' \<rparr> scenarioForm ''r1'' 0) = Fin 350"
proof -
  let ?c = "ReportForm_handleSubmit
        \<lparr> driver_id = ''1'', driver_name = ''Ramesh Kumar'', vehicle = ''TN 38 BR 1234'',
          pin = ''1234'' \<rparr> scenarioForm ''r1'' 0"
  have h: "noNumberField scenarioForm"
    by (simp add: noNumberField_def scenarioForm_def)
  have v: "ReportForm_getVal (Str ''500'') = Fin 500" "ReportForm_getVal (Str ''0'') = Fin 0"
    "ReportForm_getVal (Str ''100'') = Fin 100" "ReportForm_getVal (Str ''50'') = Fin 50"
    by (simp_all add: parser_defs)
  have t: "totalIncome ?c = Fin 500" "totalExpenses ?c = Fin 150" "netProfit ?c = Fin 350"
    by (simp_all add: ReportForm_defs scenarioForm_def v jssub_def round64_def overflow64_def)
  note T = derived_totals_recomputed [of
      "\<lparr> driver_id = ''1'', driver_name = ''Ramesh Kumar'', vehicle = ''TN 38 BR 1234'',
         pin = ''1234'' \<rparr>" scenarioForm "''r1''" 0]
  from T have "derivedTotalsHold ?c \<longleftrightarrow> netProfit ?c \<noteq> NaN"
    by (rule conjunct1)
  with t have "derivedTotalsHold ?c"
    by simp
  with h t show ?thesis by simp
qed

section \<open>Day numbers\<close>

lemma div_add_multiple:
  fixes a c k :: int
  assumes "0 \<le> a" "a < k"
  shows "(a + c * k) div k = c"
proof -
  have "k \<noteq> 0" using assms by auto
  then have "(a + c * k) div k = c + a div k" by (rule div_mult_self1)
  also have "a div k = 0" using assms by (simp add: div_pos_pos_trivial)
  finally show ?thesis by simp
qed

lemma div_step:
  fixes y k :: int
  assumes k: "0 < k"
  shows "y div k = (y - 1) div k + (if y mod k = 0 then 1 else 0)"
proof (cases "y mod k = 0")
  case True
  then obtain q where q: "y = k * q" by auto
  have e: "y - 1 = (k - 1) + (q - 1) * k" by (simp add: q algebra_simps)
  have "(y - 1) div k = q - 1"
    unfolding e using k by (intro div_add_multiple) simp_all
  then show ?thesis using k True q by simp
next
  case False
  have r: "0 \<le> y mod k - 1" "y mod k - 1 < k"
    using k False pos_mod_sign [of k y] pos_mod_bound [of k y] by linarith+
  have e: "y - 1 = (y mod k - 1) + (y div k) * k" by (simp add: algebra_simps)
  have "(y - 1) div k = y div k"
    by (subst e) (rule div_add_multiple [OF r])
  then show ?thesis using False by simp
qed

lemma year_step_arith:
  fixes y b4 a4 b100 a100 b400 a400 c4 c100 c400 :: int
  assumes "b4 = a4 + c4" "b100 = a100 + c100" "b400 = a400 + c400"
  shows "365 * (y - 1969) + (b4 - 492) - (b100 - 19) + (b400 - 4)
       = 365 * (y - 1970) + (a4 - 492) - (a100 - 19) + (a400 - 4) + (365 + c4 - c100 + c400)"
  using assms by simp

lemma daysBeforeYear_Suc:
  "daysBeforeYear (y + 1) = daysBeforeYear y + (if isLeapYear y then 366 else 365)"
proof -
  define p4 p100 p400 where "p4 = (y mod 4 = 0)" and "p100 = (y mod 100 = 0)"
    and "p400 = (y mod 400 = 0)"
  have "(100::int) dvd 400" "(4::int) dvd 100"
    by simp_all
  then have imp: "p400 \<Longrightarrow> p100" "p100 \<Longrightarrow> p4"
    unfolding p4_def p100_def p400_def mod_eq_0_iff_dvd by (blast intro: dvd_trans)+
  have d4: "y div 4 = (y - 1) div 4 + (if p4 then 1 else 0)"
    unfolding p4_def by (rule div_step) simp
  have d100: "y div 100 = (y - 1) div 100 + (if p100 then 1 else 0)"
    unfolding p100_def by (rule div_step) simp
  have d400: "y div 400 = (y - 1) div 400 + (if p400 then 1 else 0)"
    unfolding p400_def by (rule div_step) simp
  have leap: "isLeapYear y = ((p4 \<and> \<not> p100) \<or> p400)"
    by (simp only: isLeapYear_def p4_def p100_def p400_def)
  have c: "(if isLeapYear y then 366 else 365)
      = 365 + (if p4 then 1 else 0) - (if p100 then 1 else 0) + (if p400 then 1 else (0::int))"
    unfolding leap using imp by (cases p4; cases p100; cases p400) simp_all
  have s: "daysBeforeYear (y + 1)
      = 365 * (y - 1969) + (y div 4 - 492) - (y div 100 - 19) + (y div 400 - 4)"
    by (simp add: daysBeforeYear_def)
  note s
  also have "365 * (y - 1969) + (y div 4 - 492) - (y div 100 - 19) + (y div 400 - 4)
      = 365 * (y - 1970) + ((y - 1) div 4 - 492) - ((y - 1) div 100 - 19)
          + ((y - 1) div 400 - 4)
          + (365 + (if p4 then 1 else 0) - (if p100 then 1 else 0) + (if p400 then 1 else 0))"
    by (rule year_step_arith [OF d4 d100 d400])
  also have "\<dots> = daysBeforeYear y + (if isLeapYear y then 366 else 365)"
    by (simp only: c daysBeforeYear_def)
  finally show ?thesis .
qed

lemma daysBeforeMonth_Suc:
  assumes "0 \<le> m" "m < 11"
  shows "daysBeforeMonth y (m + 1) = daysBeforeMonth y m + daysInMonth y m"
proof -
  from assms have "m \<in> {0, 1, 2, 3, 4, 5, 6, 7, 8, 9, 10}"
    by simp presburger
  then show ?thesis
    by (auto simp: daysBeforeMonth_def daysInMonth_def)
qed

lemma daysBeforeMonth_Dec:
  "daysBeforeMonth y 11 + daysInMonth y 11 = (if isLeapYear y then 366 else 365)"
  by (simp add: daysBeforeMonth_def daysInMonth_def)

lemma daysBeforeMonth_Jan: "daysBeforeMonth y 0 = 0"
  by (simp add: daysBeforeMonth_def)

lemma dayNumber_nextDay:
  assumes "validDate d"
  shows "dayNumber (nextDay d) = dayNumber d + 1"
proof -
  from assms have range: "0 \<le> getMonth d" "getMonth d \<le> 11"
    by (simp_all add: validDate_def)
  then have m12: "getMonth d div 12 = 0" "getMonth d mod 12 = getMonth d"
    by simp_all
  have dn: "dayNumber d = daysBeforeYear (getFullYear d)
      + daysBeforeMonth (getFullYear d) (getMonth d) + (getDate d - 1)"
    by (simp add: dayNumber_def Let_def m12)
  show ?thesis
  proof (cases "getDate d < daysInMonth (getFullYear d) (getMonth d)")
    case True
    then show ?thesis by (simp add: nextDay_def dayNumber_def Let_def m12)
  next
    case False
    with assms have last: "getDate d = daysInMonth (getFullYear d) (getMonth d)"
      by (simp add: validDate_def)
    show ?thesis
    proof (cases "getMonth d < 11")
      case True
      with range have s: "daysBeforeMonth (getFullYear d) (getMonth d + 1)
          = daysBeforeMonth (getFullYear d) (getMonth d)
            + daysInMonth (getFullYear d) (getMonth d)"
        by (simp add: daysBeforeMonth_Suc)
      from True range have n12: "(getMonth d + 1) div 12 = 0"
        "(getMonth d + 1) mod 12 = getMonth d + 1"
        by simp_all
      from True False have "dayNumber (nextDay d) = daysBeforeYear (getFullYear d)
          + daysBeforeMonth (getFullYear d) (getMonth d + 1)"
        by (simp add: nextDay_def dayNumber_def Let_def n12)
      with s last dn show ?thesis by simp
    next
      case False
      with range have m: "getMonth d = 11" by simp
      from False last have "dayNumber (nextDay d) = daysBeforeYear (getFullYear d + 1)"
        by (simp add: nextDay_def dayNumber_def Let_def daysBeforeMonth_Jan m)
      with last m dn daysBeforeMonth_Dec [of "getFullYear d"] show ?thesis
        by (simp add: daysBeforeYear_Suc)
    qed
  qed
qed

text \<open>So the day number counts days: the day after a calendar day has the next number.\<close>

lemma dayNumber_epoch: "dayNumber \<lparr> getFullYear = 1970, getMonth = 0, getDate = 1 \<rparr> = 0"
  by (simp add: dayNumber_def daysBeforeYear_def daysBeforeMonth_def isLeapYear_def)

lemma validDate_prevDay:
  assumes "validDate d"
  shows "validDate (prevDay d) \<and> nextDay (prevDay d) = d"
proof (cases "1 < getDate d")
  case True
  with assms show ?thesis
    by (simp add: validDate_def prevDay_def nextDay_def)
next
  case False
  with assms have one: "getDate d = 1"
    by (simp add: validDate_def)
  show ?thesis
  proof (cases "0 < getMonth d")
    case True
    have "1 \<le> daysInMonth (getFullYear d) (getMonth d - 1)"
      by (simp add: daysInMonth_def)
    with True assms one show ?thesis
      by (simp add: validDate_def prevDay_def nextDay_def)
  next
    case False
    with assms have "getMonth d = 0"
      by (simp add: validDate_def)
    with one show ?thesis
      by (cases d) (simp add: validDate_def prevDay_def nextDay_def daysInMonth_def)
  qed
qed

lemma dayNumber_prevDay:
  assumes "validDate d"
  shows "dayNumber (prevDay d) = dayNumber d - 1"
  using validDate_prevDay [OF assms] dayNumber_nextDay [of "prevDay d"] by simp

lemma validDate_isoFields: "validIso d \<Longrightarrow> validDate (isoFields d)"
  by (simp add: validIso_def validDate_def isoFields_def)

section \<open>The date filter\<close>

lemma newDate_east:
  "validIso d \<Longrightarrow> 0 \<le> offsetUTC z (utcMidnight d) \<Longrightarrow> newDate z (Some d) = Some (isoFields d)"
  by (simp add: newDate_def)

lemma newDate_west:
  "validIso d \<Longrightarrow> offsetUTC z (utcMidnight d) < 0
     \<Longrightarrow> newDate z (Some d) = Some (prevDay (isoFields d))"
  by (simp add: newDate_def)

lemma newDate_None: "newDate z s = None \<longleftrightarrow> parsedTime s = None"
  by (simp add: newDate_def parsedTime_def split: option.splits)

lemma jsDate_fields [simp]:
  "\<lparr> getFullYear = getFullYear f, getMonth = getMonth f, getDate = getDate f \<rparr> = (f :: jsDate)"
  by (cases f) simp

text \<open>The instant at which a local day starts, from its day number.\<close>

lemma midnightTime_plain:
  assumes "100 \<le> getFullYear f"
  shows "midnightTime z (Some f)
         = Some (dayNumber f * msPerDay - offsetLocal z (dayNumber f * msPerDay))"
  using assms by (simp add: midnightTime_def newDateYMD_getTime_def Let_def)

lemma midnightsIncrease_le:
  assumes "midnightsIncrease z"
  shows "a * msPerDay - offsetLocal z (a * msPerDay) \<le> b * msPerDay - offsetLocal z (b * msPerDay)
         \<longleftrightarrow> a \<le> b"
proof -
  let ?T = "\<lambda>n. n * msPerDay - offsetLocal z (n * msPerDay)"
  from assms have mono: "\<And>x y. x < y \<Longrightarrow> ?T x < ?T y"
    by (simp add: midnightsIncrease_def)
  show ?thesis
  proof
    assume le: "?T a \<le> ?T b"
    show "a \<le> b"
    proof (rule ccontr)
      assume "\<not> a \<le> b"
      then have "b < a" by simp
      from mono [OF this] le show False by simp
    qed
  next
    assume "a \<le> b"
    then consider "a = b" | "a < b" by linarith
    then show "?T a \<le> ?T b"
    proof cases
      case 1
      then show ?thesis by simp
    next
      case 2
      from mono [OF this] show ?thesis by simp
    qed
  qed
qed

lemma midnightsIncrease_fixedZone: "midnightsIncrease (fixedZone c)"
  by (simp add: midnightsIncrease_def fixedZone_def msPerDay_def)

lemmas date_defs =
  dayNumber_def daysBeforeYear_def daysBeforeMonth_def daysInMonth_def isLeapYear_def
  newDate_def newDateYMD_getTime_def midnightTime_def isoFields_def utcMidnight_def
  validIso_def parsedTime_def reportDay_def prevDay_def fixedZone_def msPerDay_def
  reportOn_def undatedReport_def




text \<open>
  C4 as the claim states it fails: the filter rebuilds each date from its fields, where a
  year from 0 to 99 stands for 1900 plus that year, so a report dated 15 June of the year
  50 matches the range from 1 January 1940 to 1 January 1960.
\<close>

theorem custom_filter_two_digit_year_counterexample:
  "dateFilterMatches (fixedZone 19800000) ''custom''
     (Some \<lparr> year = 1940, month = 1, day = 1 \<rparr>) (Some \<lparr> year = 1960, month = 1, day = 1 \<rparr>)
     \<lparr> getFullYear = 2024, getMonth = 2, getDate = 10 \<rparr>
     (reportOn ''r1'' ''1'' \<lparr> year = 50, month = 6, day = 15 \<rparr>)
   \<and> \<not> withinCustomRange \<lparr> year = 1940, month = 1, day = 1 \<rparr>
     \<lparr> year = 1960, month = 1, day = 1 \<rparr>
     (reportOn ''r1'' ''1'' \<lparr> year = 50, month = 6, day = 15 \<rparr>)"
  by (simp add: dateFilterMatches_def withinCustomRange_def date_defs)

text \<open>
  C4, amended. In mode \<open>custom\<close> with both bounds set, take a report's date and two bounds
  whose years, as the filter reads them, are 100 or later, in a time zone where a later
  day starts at a later instant and which is on the same side of UTC on the three dates.
  Then the date filter matches the report if and only if its calendar day lies between
  the start day and the end day, both included; a report dated the start bound and one
  dated the end bound match (when the range is not empty). A report with no date does not
  match. With either bound blank the filter matches every report.
\<close>

theorem custom_filter_inclusive_range:
  "(date r = Some d
      \<and> readsYearAsWritten z d \<and> readsYearAsWritten z cs \<and> readsYearAsWritten z ce
      \<and> (offsetUTC z (utcMidnight d) < 0) = (offsetUTC z (utcMidnight cs) < 0)
      \<and> (offsetUTC z (utcMidnight d) < 0) = (offsetUTC z (utcMidnight ce) < 0)
      \<and> midnightsIncrease z
    \<longrightarrow> (dateFilterMatches z ''custom'' (Some cs) (Some ce) today r
            \<longleftrightarrow> withinCustomRange cs ce r)
        \<and> (dayNumber (isoFields cs) \<le> dayNumber (isoFields ce) \<and> (d = cs \<or> d = ce)
             \<longrightarrow> dateFilterMatches z ''custom'' (Some cs) (Some ce) today r))
   \<and> (parsedTime (date r) = None
        \<longrightarrow> \<not> dateFilterMatches z ''custom'' (Some cs) (Some ce) today r)
   \<and> (customStart = None \<or> customEnd = None
        \<longrightarrow> dateFilterMatches z ''custom'' customStart customEnd today r)"
proof -
  have seen: "\<exists>f. newDate z (Some x) = Some f \<and> 100 \<le> getFullYear f \<and> validIso x
      \<and> dayNumber f = dayNumber (isoFields x) - (if offsetUTC z (utcMidnight x) < 0 then 1 else 0)"
    if "readsYearAsWritten z x" for x
  proof -
    from that have v: "validIso x"
      by (auto simp: readsYearAsWritten_def newDate_def split: if_splits)
    show ?thesis
    proof (cases "offsetUTC z (utcMidnight x) < 0")
      case True
      with that v show ?thesis
        by (simp add: readsYearAsWritten_def newDate_west dayNumber_prevDay
            validDate_isoFields)
    next
      case False
      with that v show ?thesis
        by (simp add: readsYearAsWritten_def newDate_east)
    qed
  qed
  have 1: "dateFilterMatches z ''custom'' (Some cs) (Some ce) today r
            \<longleftrightarrow> withinCustomRange cs ce r"
    if h: "date r = Some d" "readsYearAsWritten z d" "readsYearAsWritten z cs"
      "readsYearAsWritten z ce"
      "(offsetUTC z (utcMidnight d) < 0) = (offsetUTC z (utcMidnight cs) < 0)"
      "(offsetUTC z (utcMidnight d) < 0) = (offsetUTC z (utcMidnight ce) < 0)"
      "midnightsIncrease z"
  proof -
    from seen [OF h(2)] obtain fd where fd: "newDate z (Some d) = Some fd"
      "100 \<le> getFullYear fd" "validIso d"
      "dayNumber fd = dayNumber (isoFields d) - (if offsetUTC z (utcMidnight d) < 0 then 1 else 0)"
      by blast
    from seen [OF h(3)] obtain fs where fs: "newDate z (Some cs) = Some fs"
      "100 \<le> getFullYear fs"
      "dayNumber fs = dayNumber (isoFields cs) - (if offsetUTC z (utcMidnight cs) < 0 then 1 else 0)"
      by blast
    from seen [OF h(4)] obtain fe where fe: "newDate z (Some ce) = Some fe"
      "100 \<le> getFullYear fe"
      "dayNumber fe = dayNumber (isoFields ce) - (if offsetUTC z (utcMidnight ce) < 0 then 1 else 0)"
      by blast
    have "dateFilterMatches z ''custom'' (Some cs) (Some ce) today r
        \<longleftrightarrow> dayNumber fs \<le> dayNumber fd \<and> dayNumber fd \<le> dayNumber fe"
      by (simp add: dateFilterMatches_def Let_def h(1) fd(1) fs(1) fe(1)
          midnightTime_plain [OF fd(2)] midnightTime_plain [OF fs(2)]
          midnightTime_plain [OF fe(2)] midnightsIncrease_le [OF h(7)])
    also have "\<dots> \<longleftrightarrow> dayNumber (isoFields cs) \<le> dayNumber (isoFields d)
        \<and> dayNumber (isoFields d) \<le> dayNumber (isoFields ce)"
      using h(5) h(6) by (simp add: fd(4) fs(3) fe(3))
    also have "\<dots> \<longleftrightarrow> withinCustomRange cs ce r"
      by (simp add: withinCustomRange_def reportDay_def h(1) fd(3))
    finally show ?thesis .
  qed
  have 2: "dateFilterMatches z ''custom'' (Some cs) (Some ce) today r"
    if "date r = Some d" "readsYearAsWritten z d"
      "dayNumber (isoFields cs) \<le> dayNumber (isoFields ce)" "d = cs \<or> d = ce"
      "dateFilterMatches z ''custom'' (Some cs) (Some ce) today r
            \<longleftrightarrow> withinCustomRange cs ce r"
  proof -
    from that(2) have "validIso d"
      by (auto simp: readsYearAsWritten_def newDate_def split: if_splits)
    with that show ?thesis
      by (auto simp: withinCustomRange_def reportDay_def)
  qed
  have 3: "\<not> dateFilterMatches z ''custom'' (Some cs) (Some ce) today r"
    if "parsedTime (date r) = None"
  proof -
    from that have "newDate z (date r) = None"
      by (simp add: newDate_None)
    then show ?thesis
      by (simp add: dateFilterMatches_def Let_def midnightTime_def)
  qed
  have 4: "dateFilterMatches z ''custom'' customStart customEnd today r"
    if "customStart = None \<or> customEnd = None"
    using that by (auto simp: dateFilterMatches_def Let_def split: option.splits)
  from 1 2 3 4 show ?thesis by blast
qed

theorem custom_filter_inclusive_range_witness:
  "dateFilterMatches (fixedZone 19800000) ''custom''
       (Some \<lparr> year = 2024, month = 3, day = 1 \<rparr>) (Some \<lparr> year = 2024, month = 3, day = 31 \<rparr>)
       \<lparr> getFullYear = 2024, getMonth = 5, getDate = 1 \<rparr>
       (reportOn ''r1'' ''1'' \<lparr> year = 2024, month = 3, day = 1 \<rparr>)
   \<and> dateFilterMatches (fixedZone (- 18000000)) ''custom''
       (Some \<lparr> year = 2024, month = 3, day = 1 \<rparr>) (Some \<lparr> year = 2024, month = 3, day = 31 \<rparr>)
       \<lparr> getFullYear = 2024, getMonth = 5, getDate = 1 \<rparr>
       (reportOn ''r2'' ''1'' \<lparr> year = 2024, month = 3, day = 31 \<rparr>)
   \<and> \<not> dateFilterMatches (fixedZone 19800000) ''custom''
       (Some \<lparr> year = 2024, month = 3, day = 1 \<rparr>) (Some \<lparr> year = 2024, month = 3, day = 31 \<rparr>)
       \<lparr> getFullYear = 2024, getMonth = 5, getDate = 1 \<rparr>
       (reportOn ''r3'' ''1'' \<lparr> year = 2024, month = 4, day = 1 \<rparr>)
   \<and> \<not> dateFilterMatches (fixedZone 19800000) ''custom''
       (Some \<lparr> year = 2024, month = 3, day = 1 \<rparr>) (Some \<lparr> year = 2024, month = 3, day = 31 \<rparr>)
       \<lparr> getFullYear = 2024, getMonth = 5, getDate = 1 \<rparr> (undatedReport ''r4'' ''1'')
   \<and> dateFilterMatches (fixedZone 19800000) ''custom''
       None (Some \<lparr> year = 2024, month = 3, day = 31 \<rparr>)
       \<lparr> getFullYear = 2024, getMonth = 5, getDate = 1 \<rparr>
       (reportOn ''r3'' ''1'' \<lparr> year = 2024, month = 4, day = 1 \<rparr>)"
proof -
  let ?ist = "fixedZone 19800000"
  let ?ny = "fixedZone (- 18000000)"
  let ?cs = "\<lparr> year = 2024, month = 3, day = 1 \<rparr>"
  let ?ce = "\<lparr> year = 2024, month = 3, day = 31 \<rparr>"
  let ?d3 = "\<lparr> year = 2024, month = 4, day = 1 \<rparr>"
  let ?today = "\<lparr> getFullYear = 2024, getMonth = 5, getDate = 1 \<rparr>"
  have y: "readsYearAsWritten ?ist ?cs" "readsYearAsWritten ?ist ?ce"
    "readsYearAsWritten ?ist ?d3" "readsYearAsWritten ?ny ?cs" "readsYearAsWritten ?ny ?ce"
    by (simp_all add: readsYearAsWritten_def date_defs)
  have side: "offsetUTC ?ist t = 19800000" "offsetUTC ?ny t = - 18000000" for t
    by (simp_all add: fixedZone_def)
  have n: "dayNumber (isoFields ?cs) = 19783" "dayNumber (isoFields ?ce) = 19813"
    "dayNumber (isoFields ?d3) = 19814"
    by (simp_all add: date_defs)
  have v: "validIso ?cs" "validIso ?ce" "validIso ?d3"
    by (simp_all add: validIso_def daysInMonth_def)
  have dt: "date (reportOn rid did x) = Some x" "date (undatedReport rid did) = None"
    for rid did x
    by (simp_all add: reportOn_def undatedReport_def)
  note T1 = custom_filter_inclusive_range [of "reportOn ''r1'' ''1'' ?cs" ?cs ?ist ?cs ?ce ?today
      None "Some ?ce"]
  note T2 = custom_filter_inclusive_range [of "reportOn ''r2'' ''1'' ?ce" ?ce ?ny ?cs ?ce ?today
      None "Some ?ce"]
  note T3 = custom_filter_inclusive_range [of "reportOn ''r3'' ''1'' ?d3" ?d3 ?ist ?cs ?ce ?today
      None "Some ?ce"]
  note T4 = custom_filter_inclusive_range [of "undatedReport ''r4'' ''1''" ?d3 ?ist ?cs ?ce ?today
      None "Some ?ce"]
  from T1 y have 1: "dateFilterMatches ?ist ''custom'' (Some ?cs) (Some ?ce) ?today
      (reportOn ''r1'' ''1'' ?cs)"
    by (simp add: dt side midnightsIncrease_fixedZone withinCustomRange_def reportDay_def v n)
  from T2 y have 2: "dateFilterMatches ?ny ''custom'' (Some ?cs) (Some ?ce) ?today
      (reportOn ''r2'' ''1'' ?ce)"
    by (simp add: dt side midnightsIncrease_fixedZone withinCustomRange_def reportDay_def v n)
  from T3 y have 3: "\<not> dateFilterMatches ?ist ''custom'' (Some ?cs) (Some ?ce) ?today
      (reportOn ''r3'' ''1'' ?d3)"
    by (simp add: dt side midnightsIncrease_fixedZone withinCustomRange_def reportDay_def v n)
  from T4 have 4: "\<not> dateFilterMatches ?ist ''custom'' (Some ?cs) (Some ?ce) ?today
      (undatedReport ''r4'' ''1'')"
    by (simp add: dt parsedTime_def)
  from T3 have 5: "dateFilterMatches ?ist ''custom'' None (Some ?ce) ?today
      (reportOn ''r3'' ''1'' ?d3)"
    by simp
  from 1 2 3 4 5 show ?thesis by simp
qed




section \<open>The filtered collection\<close>

lemma mset_insertBy: "mset (insertBy cmp x ys) = add_mset x (mset ys)"
  by (induction ys) auto

lemma mset_arraySort: "mset (arraySort cmp xs) = mset xs"
  by (induction xs) (simp_all add: arraySort_def mset_insertBy)

lemma set_insertBy: "set (insertBy cmp x ys) = insert x (set ys)"
  by (induction ys) auto

lemma set_arraySort: "set (arraySort cmp xs) = set xs"
  by (induction xs) (simp_all add: arraySort_def set_insertBy)

lemma jsGe_Some: "jsGe (Some a) y \<longleftrightarrow> (\<exists>b. y = Some b \<and> b \<le> a)"
  by (cases y) auto

text \<open>The time value of a report's date is its day number, in milliseconds.\<close>

lemma parsedTime_reportDay:
  "parsedTime (date r) = map_option (\<lambda>n. n * msPerDay) (reportDay r)"
  by (simp add: parsedTime_def reportDay_def utcMidnight_def split: option.splits)

lemma jsGe_parsedTime:
  "jsGe (parsedTime (date a)) (parsedTime (date b)) \<longleftrightarrow> jsGe (reportDay a) (reportDay b)"
proof (cases "reportDay a")
  case None
  then show ?thesis by (simp add: parsedTime_reportDay)
next
  case (Some m)
  show ?thesis
  proof (cases "reportDay b")
    case None
    then show ?thesis by (simp add: parsedTime_reportDay Some)
  next
    case (Some n)
    with \<open>reportDay a = Some m\<close> show ?thesis
      by (simp add: parsedTime_reportDay msPerDay_def)
  qed
qed

text \<open>
  Inserting a dated report into a list of dated reports that descends by date keeps it
  so.
\<close>

lemma sorted_insertBy:
  assumes "sorted_wrt (\<lambda>a b. jsGe (parsedTime (date a)) (parsedTime (date b))) ys"
    and "parsedTime (date x) \<noteq> None"
    and "\<forall>y\<in>set ys. parsedTime (date y) \<noteq> None"
  shows "sorted_wrt (\<lambda>a b. jsGe (parsedTime (date a)) (parsedTime (date b)))
           (insertBy byDateDescending x ys)"
  using assms
proof (induction ys)
  case Nil
  then show ?case by simp
next
  case (Cons y ys)
  from Cons.prems(2) obtain tx where tx: "parsedTime (date x) = Some tx"
    by auto
  from Cons.prems(3) obtain ty where ty: "parsedTime (date y) = Some ty"
    by auto
  have c: "byDateDescending x y = Some (ty - tx)"
    by (simp add: byDateDescending_def tx ty)
  show ?case
  proof (cases "ty - tx \<le> 0")
    case True
    have "jsGe (parsedTime (date x)) (parsedTime (date w))" if "w \<in> set (y # ys)" for w
    proof (cases "w = y")
      case True
      with \<open>ty - tx \<le> 0\<close> show ?thesis by (simp add: tx ty)
    next
      case False
      with that Cons.prems(1) have "jsGe (parsedTime (date y)) (parsedTime (date w))"
        by auto
      with \<open>ty - tx \<le> 0\<close> show ?thesis
        by (auto simp: tx ty jsGe_Some)
    qed
    with True Cons.prems(1) show ?thesis
      by (simp add: c)
  next
    case False
    from Cons have "sorted_wrt (\<lambda>a b. jsGe (parsedTime (date a)) (parsedTime (date b)))
        (insertBy byDateDescending x ys)"
      by simp
    with False Cons.prems(1) show ?thesis
      by (auto simp: c set_insertBy tx ty)
  qed
qed

lemma sorted_arraySort:
  assumes "\<forall>x\<in>set xs. parsedTime (date x) \<noteq> None"
  shows "descendingByDate (arraySort byDateDescending xs)"
proof -
  from assms have "sorted_wrt (\<lambda>a b. jsGe (parsedTime (date a)) (parsedTime (date b)))
      (arraySort byDateDescending xs)"
  proof (induction xs)
    case Nil
    then show ?case by (simp add: arraySort_def)
  next
    case (Cons x xs)
    then have "sorted_wrt (\<lambda>a b. jsGe (parsedTime (date a)) (parsedTime (date b)))
        (insertBy byDateDescending x (arraySort byDateDescending xs))"
      by (intro sorted_insertBy) (simp_all add: set_arraySort)
    then show ?case by (simp add: arraySort_def)
  qed
  then show ?thesis
    by (simp add: descendingByDate_def jsGe_parsedTime)
qed

text \<open>
  In the modes that compare the report's date, and in the custom mode with both bounds
  set, a report with no date does not match.
\<close>

lemma dateFilterMatches_dated:
  assumes "dateFilterMatches z dateFilter customStart customEnd today r"
    and "dateFilter = ''today'' \<or> dateFilter = ''week'' \<or> dateFilter = ''month''
         \<or> dateFilter = ''year''
         \<or> (dateFilter = ''custom'' \<and> customStart \<noteq> None \<and> customEnd \<noteq> None)"
  shows "parsedTime (date r) \<noteq> None"
proof
  assume "parsedTime (date r) = None"
  then have n: "newDate z (date r) = None"
    by (simp add: newDate_None)
  from assms(2) have "\<not> dateFilterMatches z dateFilter customStart customEnd today r"
    by (auto simp: dateFilterMatches_def Let_def n midnightTime_def)
  with assms(1) show False by simp
qed

text \<open>
  C7 as the claim states it fails. The edit dialogs let the date of a report be cleared;
  the comparator is then \<open>NaN\<close> against that report, and the sort leaves a report of
  3 March before one of 9 March.
\<close>

theorem filtered_reports_undated_counterexample:
  "filteredReports (fixedZone 19800000) ''all'' ''all'' None None
     \<lparr> getFullYear = 2024, getMonth = 2, getDate = 10 \<rparr>
     [reportOn ''r1'' ''1'' \<lparr> year = 2024, month = 3, day = 3 \<rparr>,
      undatedReport ''r2'' ''1'',
      reportOn ''r3'' ''1'' \<lparr> year = 2024, month = 3, day = 9 \<rparr>]
   = [reportOn ''r1'' ''1'' \<lparr> year = 2024, month = 3, day = 3 \<rparr>,
      undatedReport ''r2'' ''1'',
      reportOn ''r3'' ''1'' \<lparr> year = 2024, month = 3, day = 9 \<rparr>]
   \<and> \<not> jsGe (reportDay (reportOn ''r1'' ''1'' \<lparr> year = 2024, month = 3, day = 3 \<rparr>))
            (reportDay (reportOn ''r3'' ''1'' \<lparr> year = 2024, month = 3, day = 9 \<rparr>))
   \<and> \<not> descendingByDate
       (filteredReports (fixedZone 19800000) ''all'' ''all'' None None
          \<lparr> getFullYear = 2024, getMonth = 2, getDate = 10 \<rparr>
          [reportOn ''r1'' ''1'' \<lparr> year = 2024, month = 3, day = 3 \<rparr>,
           undatedReport ''r2'' ''1'',
           reportOn ''r3'' ''1'' \<lparr> year = 2024, month = 3, day = 9 \<rparr>])
   \<and> myReports (fixedZone 19800000)
       \<lparr> driver_id = ''1'', driver_name = ''Ramesh Kumar'', vehicle = ''TN 38 BR 1234'',
         pin = ''1234'' \<rparr>
       ''all'' None None \<lparr> getFullYear = 2024, getMonth = 2, getDate = 10 \<rparr>
     [reportOn ''r1'' ''1'' \<lparr> year = 2024, month = 3, day = 3 \<rparr>,
      undatedReport ''r2'' ''1'',
      reportOn ''r3'' ''1'' \<lparr> year = 2024, month = 3, day = 9 \<rparr>]
   = [reportOn ''r1'' ''1'' \<lparr> year = 2024, month = 3, day = 3 \<rparr>,
      undatedReport ''r2'' ''1'',
      reportOn ''r3'' ''1'' \<lparr> year = 2024, month = 3, day = 9 \<rparr>]"
proof -
  let ?r1 = "reportOn ''r1'' ''1'' \<lparr> year = 2024, month = 3, day = 3 \<rparr>"
  let ?r2 = "undatedReport ''r2'' ''1'' :: jsnum DailyReport"
  let ?r3 = "reportOn ''r3'' ''1'' \<lparr> year = 2024, month = 3, day = 9 \<rparr>"
  have i: "driverId ?r1 = ''1''" "driverId ?r2 = ''1''" "driverId ?r3 = ''1''"
    by (simp_all add: reportOn_def undatedReport_def)
  have p: "parsedTime (date ?r2) = None"
    by (simp add: parsedTime_def undatedReport_def)
  have c: "byDateDescending ?r2 ?r3 = None" "byDateDescending ?r1 ?r2 = None"
    by (simp_all add: byDateDescending_def p split: option.splits)
  have s: "arraySort byDateDescending [?r1, ?r2, ?r3] = [?r1, ?r2, ?r3]"
    by (simp add: arraySort_def c)
  have d: "reportDay ?r1 = Some 19785" "reportDay ?r2 = None" "reportDay ?r3 = Some 19791"
    by (simp_all add: date_defs)
  have 1: "filteredReports (fixedZone 19800000) ''all'' ''all'' None None
     \<lparr> getFullYear = 2024, getMonth = 2, getDate = 10 \<rparr> [?r1, ?r2, ?r3] = [?r1, ?r2, ?r3]"
    by (simp add: filteredReports_def dateFilterMatches_def Let_def s)
  have 2: "myReports (fixedZone 19800000)
       \<lparr> driver_id = ''1'', driver_name = ''Ramesh Kumar'', vehicle = ''TN 38 BR 1234'',
         pin = ''1234'' \<rparr>
       ''all'' None None \<lparr> getFullYear = 2024, getMonth = 2, getDate = 10 \<rparr>
       [?r1, ?r2, ?r3] = [?r1, ?r2, ?r3]"
    by (simp add: myReports_def dateFilterMatches_def Let_def s i)
  have 3: "\<not> jsGe (reportDay ?r1) (reportDay ?r3)"
    by (simp add: d)
  have 4: "\<not> descendingByDate [?r1, ?r2, ?r3]"
    by (simp add: descendingByDate_def d)
  from 1 2 3 4 show ?thesis by simp
qed

text \<open>
  C7, amended. For every driver selection and every date mode, the collection the report
  filter returns, in the admin dashboard and in the driver dashboard, holds exactly the
  reports that match, each as many times as it is given. It is in descending order of
  report date (each report dated no earlier than those after it) whenever every report
  in it has a date; and this is so in the modes \<open>today\<close>, \<open>week\<close>, \<open>month\<close> and \<open>year\<close>,
  and in the mode \<open>custom\<close> with both bounds set, in which a report with no date does
  not match.
\<close>

theorem filtered_reports_sorted_descending:
  "mset (filteredReports z filterDriver dateFilter customStart customEnd today reports)
     = mset (filter (\<lambda>r. (filterDriver = ''all'' \<or> driverId r = filterDriver)
                          \<and> dateFilterMatches z dateFilter customStart customEnd today r)
               reports)
   \<and> mset (myReports z driver dateFilter customStart customEnd today reports)
     = mset (filter (\<lambda>r. driverId r = driver_id driver
                          \<and> dateFilterMatches z dateFilter customStart customEnd today r)
               reports)
   \<and> ((\<forall>r\<in>set (filteredReports z filterDriver dateFilter customStart customEnd today reports).
          parsedTime (date r) \<noteq> None)
        \<longrightarrow> descendingByDate
              (filteredReports z filterDriver dateFilter customStart customEnd today reports))
   \<and> ((\<forall>r\<in>set (myReports z driver dateFilter customStart customEnd today reports).
          parsedTime (date r) \<noteq> None)
        \<longrightarrow> descendingByDate
              (myReports z driver dateFilter customStart customEnd today reports))
   \<and> (dateFilter = ''today'' \<or> dateFilter = ''week'' \<or> dateFilter = ''month''
        \<or> dateFilter = ''year''
        \<or> (dateFilter = ''custom'' \<and> customStart \<noteq> None \<and> customEnd \<noteq> None)
        \<longrightarrow> descendingByDate
              (filteredReports z filterDriver dateFilter customStart customEnd today reports)
            \<and> descendingByDate
              (myReports z driver dateFilter customStart customEnd today reports))"
proof -
  let ?p = "\<lambda>r. if filterDriver \<noteq> ''all'' \<and> driverId r \<noteq> filterDriver then False
                 else dateFilterMatches z dateFilter customStart customEnd today r"
  let ?q = "\<lambda>r. if driverId r \<noteq> driver_id driver then False
                 else dateFilterMatches z dateFilter customStart customEnd today r"
  have p: "?p = (\<lambda>r. (filterDriver = ''all'' \<or> driverId r = filterDriver)
                      \<and> dateFilterMatches z dateFilter customStart customEnd today r)"
    by auto
  have q: "?q = (\<lambda>r. driverId r = driver_id driver
                      \<and> dateFilterMatches z dateFilter customStart customEnd today r)"
    by auto
  have f: "filteredReports z filterDriver dateFilter customStart customEnd today reports
      = arraySort byDateDescending (filter ?p reports)"
    by (simp add: filteredReports_def)
  have m: "myReports z driver dateFilter customStart customEnd today reports
      = arraySort byDateDescending (filter ?q reports)"
    by (simp add: myReports_def)
  have 1: "mset (filteredReports z filterDriver dateFilter customStart customEnd today reports)
     = mset (filter (\<lambda>r. (filterDriver = ''all'' \<or> driverId r = filterDriver)
                          \<and> dateFilterMatches z dateFilter customStart customEnd today r)
               reports)"
    unfolding f mset_arraySort p ..
  have 2: "mset (myReports z driver dateFilter customStart customEnd today reports)
     = mset (filter (\<lambda>r. driverId r = driver_id driver
                          \<and> dateFilterMatches z dateFilter customStart customEnd today r)
               reports)"
    unfolding m mset_arraySort q ..
  have 3: "descendingByDate
        (filteredReports z filterDriver dateFilter customStart customEnd today reports)"
    if "\<forall>r\<in>set (filteredReports z filterDriver dateFilter customStart customEnd today reports).
          parsedTime (date r) \<noteq> None"
    using that unfolding f by (intro sorted_arraySort) (simp add: set_arraySort)
  have 4: "descendingByDate (myReports z driver dateFilter customStart customEnd today reports)"
    if "\<forall>r\<in>set (myReports z driver dateFilter customStart customEnd today reports).
          parsedTime (date r) \<noteq> None"
    using that unfolding m by (intro sorted_arraySort) (simp add: set_arraySort)
  have 5: "descendingByDate
        (filteredReports z filterDriver dateFilter customStart customEnd today reports)
      \<and> descendingByDate (myReports z driver dateFilter customStart customEnd today reports)"
    if h: "dateFilter = ''today'' \<or> dateFilter = ''week'' \<or> dateFilter = ''month''
        \<or> dateFilter = ''year''
        \<or> (dateFilter = ''custom'' \<and> customStart \<noteq> None \<and> customEnd \<noteq> None)"
  proof -
    have "parsedTime (date r) \<noteq> None"
      if "dateFilterMatches z dateFilter customStart customEnd today r" for r :: "'a DailyReport"
      using that h by (rule dateFilterMatches_dated)
    then have "\<forall>r\<in>set (filter ?p reports). parsedTime (date r) \<noteq> None"
      "\<forall>r\<in>set (filter ?q reports). parsedTime (date r) \<noteq> None"
      by (auto split: if_splits)
    then show ?thesis
      unfolding f m by (simp only: sorted_arraySort)
  qed
  from 1 2 3 4 5 show ?thesis by blast
qed

theorem filtered_reports_sorted_descending_witness:
  "filteredReports (fixedZone 19800000) ''all'' ''all'' None None
     \<lparr> getFullYear = 2024, getMonth = 2, getDate = 10 \<rparr>
     [reportOn ''r1'' ''1'' \<lparr> year = 2024, month = 3, day = 3 \<rparr>,
      reportOn ''r2'' ''2'' \<lparr> year = 2024, month = 3, day = 9 \<rparr>,
      reportOn ''r3'' ''1'' \<lparr> year = 2023, month = 12, day = 31 \<rparr>]
   = [reportOn ''r2'' ''2'' \<lparr> year = 2024, month = 3, day = 9 \<rparr>,
      reportOn ''r1'' ''1'' \<lparr> year = 2024, month = 3, day = 3 \<rparr>,
      reportOn ''r3'' ''1'' \<lparr> year = 2023, month = 12, day = 31 \<rparr>]
   \<and> descendingByDate
     (filteredReports (fixedZone 19800000) ''all'' ''all'' None None
        \<lparr> getFullYear = 2024, getMonth = 2, getDate = 10 \<rparr>
        [reportOn ''r1'' ''1'' \<lparr> year = 2024, month = 3, day = 3 \<rparr>,
         reportOn ''r2'' ''2'' \<lparr> year = 2024, month = 3, day = 9 \<rparr>,
         reportOn ''r3'' ''1'' \<lparr> year = 2023, month = 12, day = 31 \<rparr>])
   \<and> descendingByDate
     (myReports (fixedZone 19800000)
        \<lparr> driver_id = ''1'', driver_name = ''Ramesh Kumar'', vehicle = ''TN 38 BR 1234'',
          pin = ''1234'' \<rparr>
        ''week'' None None \<lparr> getFullYear = 2024, getMonth = 2, getDate = 10 \<rparr>
        [reportOn ''r1'' ''1'' \<lparr> year = 2024, month = 3, day = 3 \<rparr>,
         undatedReport ''r4'' ''1'',
         reportOn ''r2'' ''1'' \<lparr> year = 2024, month = 3, day = 9 \<rparr>])
   \<and> myReports (fixedZone 19800000)
        \<lparr> driver_id = ''1'', driver_name = ''Ramesh Kumar'', vehicle = ''TN 38 BR 1234'',
          pin = ''1234'' \<rparr>
        ''week'' None None \<lparr> getFullYear = 2024, getMonth = 2, getDate = 10 \<rparr>
        [reportOn ''r1'' ''1'' \<lparr> year = 2024, month = 3, day = 3 \<rparr>,
         undatedReport ''r4'' ''1'',
         reportOn ''r2'' ''1'' \<lparr> year = 2024, month = 3, day = 9 \<rparr>]
     = [reportOn ''r2'' ''1'' \<lparr> year = 2024, month = 3, day = 9 \<rparr>,
        reportOn ''r1'' ''1'' \<lparr> year = 2024, month = 3, day = 3 \<rparr>]"
proof -
  let ?z = "fixedZone 19800000"
  let ?today = "\<lparr> getFullYear = 2024, getMonth = 2, getDate = 10 \<rparr>"
  let ?drv = "\<lparr> driver_id = ''1'', driver_name = ''Ramesh Kumar'', vehicle = ''TN 38 BR 1234'',
          pin = ''1234'' \<rparr>"
  let ?a = "reportOn ''r1'' ''1'' \<lparr> year = 2024, month = 3, day = 3 \<rparr>"
  let ?b = "reportOn ''r2'' ''2'' \<lparr> year = 2024, month = 3, day = 9 \<rparr>"
  let ?c = "reportOn ''r3'' ''1'' \<lparr> year = 2023, month = 12, day = 31 \<rparr>"
  let ?u = "undatedReport ''r4'' ''1'' :: jsnum DailyReport"
  let ?b' = "reportOn ''r2'' ''1'' \<lparr> year = 2024, month = 3, day = 9 \<rparr>"
  have t: "parsedTime (date ?a) = Some 1709424000000"
    "parsedTime (date ?b) = Some 1709942400000"
    "parsedTime (date ?c) = Some 1703980800000"
    "parsedTime (date ?b') = Some 1709942400000"
    "parsedTime (date ?u) = None"
    by (simp_all add: date_defs)
  have i: "driverId (reportOn rid did x) = did" "driverId (undatedReport rid did) = did"
    for rid did x
    by (simp_all add: reportOn_def undatedReport_def)
  have c: "byDateDescending ?b ?c = Some (- 5961600000)"
    "byDateDescending ?a ?b = Some 518400000"
    "byDateDescending ?a ?c = Some (- 5443200000)"
    "byDateDescending ?a ?b' = Some 518400000"
    by (simp_all add: byDateDescending_def t)
  have 1: "filteredReports ?z ''all'' ''all'' None None ?today [?a, ?b, ?c] = [?b, ?a, ?c]"
    by (simp add: filteredReports_def dateFilterMatches_def Let_def arraySort_def c)
  have w: "dateFilterMatches ?z ''week'' None None ?today ?a"
    "\<not> dateFilterMatches ?z ''week'' None None ?today ?u"
    "dateFilterMatches ?z ''week'' None None ?today ?b'"
    by (simp_all add: dateFilterMatches_def Let_def date_defs)
  have 2: "myReports ?z ?drv ''week'' None None ?today [?a, ?u, ?b'] = [?b', ?a]"
    by (simp add: myReports_def i w arraySort_def c)
  note T1 = filtered_reports_sorted_descending [of ?z "''all''" "''all''" None None ?today
      "[?a, ?b, ?c]" ?drv]
  note T2 = filtered_reports_sorted_descending [of ?z "''all''" "''week''" None None ?today
      "[?a, ?u, ?b']" ?drv]
  from T1 have 3: "descendingByDate
      (filteredReports ?z ''all'' ''all'' None None ?today [?a, ?b, ?c])"
    by (simp add: 1 t)
  from T2 have 4: "descendingByDate (myReports ?z ?drv ''week'' None None ?today [?a, ?u, ?b'])"
    by simp
  from 1 2 3 4 show ?thesis by simp
qed

text \<open>
  C10. For every date mode and every logged-in driver, every report of the driver
  dashboard's filtered collection has the \<open>driverId\<close> of that driver, and is one of the
  reports given; a report of another driver is never in it.
\<close>

theorem myReports_only_own_reports:
  "(\<forall>r\<in>set (myReports z driver dateFilter customStart customEnd today reports).
      driverId r = driver_id driver \<and> r \<in> set reports)
   \<and> (driverId r' \<noteq> driver_id driver
        \<longrightarrow> r' \<notin> set (myReports z driver dateFilter customStart customEnd today reports))"
  by (auto simp: myReports_def set_arraySort)

theorem myReports_only_own_reports_witness:
  "myReports (fixedZone 19800000)
       \<lparr> driver_id = ''1'', driver_name = ''Ramesh Kumar'', vehicle = ''TN 38 BR 1234'',
       pin = ''1234'' \<rparr>
     ''all'' None None \<lparr> getFullYear = 2024, getMonth = 2, getDate = 10 \<rparr>
     [reportOn ''r1'' ''1'' \<lparr> year = 2024, month = 3, day = 3 \<rparr>,
      reportOn ''r2'' ''2'' \<lparr> year = 2024, month = 3, day = 9 \<rparr>]
   = [reportOn ''r1'' ''1'' \<lparr> year = 2024, month = 3, day = 3 \<rparr>]
   \<and> reportOn ''r2'' ''2'' \<lparr> year = 2024, month = 3, day = 9 \<rparr>
     \<notin> set (myReports (fixedZone 19800000)
         \<lparr> driver_id = ''1'', driver_name = ''Ramesh Kumar'',
         vehicle = ''TN 38 BR 1234'', pin = ''1234'' \<rparr>
       ''all'' None None \<lparr> getFullYear = 2024, getMonth = 2, getDate = 10 \<rparr>
       [reportOn ''r1'' ''1'' \<lparr> year = 2024, month = 3, day = 3 \<rparr>,
        reportOn ''r2'' ''2'' \<lparr> year = 2024, month = 3, day = 9 \<rparr>])"
proof -
  have i: "driverId (reportOn rid did x) = did" for rid did x
    by (simp add: reportOn_def)
  have m: "myReports (fixedZone 19800000)
       \<lparr> driver_id = ''1'', driver_name = ''Ramesh Kumar'',
       vehicle = ''TN 38 BR 1234'', pin = ''1234'' \<rparr>
     ''all'' None None \<lparr> getFullYear = 2024, getMonth = 2, getDate = 10 \<rparr>
     [reportOn ''r1'' ''1'' \<lparr> year = 2024, month = 3, day = 3 \<rparr>,
      reportOn ''r2'' ''2'' \<lparr> year = 2024, month = 3, day = 9 \<rparr>]
   = [reportOn ''r1'' ''1'' \<lparr> year = 2024, month = 3, day = 3 \<rparr>]"
    by (simp add: myReports_def dateFilterMatches_def Let_def arraySort_def i)
  from myReports_only_own_reports [of "fixedZone 19800000"
      "\<lparr> driver_id = ''1'', driver_name = ''Ramesh Kumar'', vehicle = ''TN 38 BR 1234'',
         pin = ''1234'' \<rparr>"
      "''all''" None None "\<lparr> getFullYear = 2024, getMonth = 2, getDate = 10 \<rparr>"
      "[reportOn ''r1'' ''1'' \<lparr> year = 2024, month = 3, day = 3 \<rparr>,
        reportOn ''r2'' ''2'' \<lparr> year = 2024, month = 3, day = 9 \<rparr>]"
      "reportOn ''r2'' ''2'' \<lparr> year = 2024, month = 3, day = 9 \<rparr>"]
  have "reportOn ''r2'' ''2'' \<lparr> year = 2024, month = 3, day = 9 \<rparr>
     \<notin> set (myReports (fixedZone 19800000)
         \<lparr> driver_id = ''1'', driver_name = ''Ramesh Kumar'',
         vehicle = ''TN 38 BR 1234'', pin = ''1234'' \<rparr>
       ''all'' None None \<lparr> getFullYear = 2024, getMonth = 2, getDate = 10 \<rparr>
       [reportOn ''r1'' ''1'' \<lparr> year = 2024, month = 3, day = 3 \<rparr>,
        reportOn ''r2'' ''2'' \<lparr> year = 2024, month = 3, day = 9 \<rparr>])"
    by (simp add: i)
  with m show ?thesis by blast
qed

section \<open>Saving and fetching drivers\<close>









text \<open>The row mapping of \<open>getDrivers\<close> rebuilds each driver from its four fields.\<close>


lemma driver_fields [simp]:
  "\<lparr> driver_id = driver_id d, driver_name = driver_name d, vehicle = vehicle d, pin = pin d \<rparr>
     = (d :: Driver)"
  by (cases d) simp

lemma map_row_fields [simp]:
  "map (\<lambda>d. \<lparr> driver_id = driver_id d, driver_name = driver_name d, vehicle = vehicle d,
               pin = pin d \<rparr>) rows = rows"
  by (induction rows) simp_all




section \<open>The admin password\<close>

text \<open>
  C8 as the claim states it fails: when the query gives no row and no error, the stored
  local value is not consulted and \<open>admin\<close> is returned.
\<close>

theorem getAdminPassword_no_row_counterexample:
  "getAdminPassword (Result None None) (Some ''s3cret'') = ''admin''
   \<and> getAdminPassword (Result None None) (Some ''s3cret'') \<noteq> ''s3cret''"
  by (simp add: getAdminPassword_def)

text \<open>
  C8, amended. When the remote read throws or reports an error, \<open>getAdminPassword\<close>
  returns the string stored locally if one is stored and is not empty, and the default
  \<open>admin\<close> otherwise. When the remote read reports no error and no row, it returns
  \<open>admin\<close> whether or not a local value is stored; when it gives a row, it returns the
  row's value.
\<close>

theorem getAdminPassword_fallback:
  "(res = Thrown \<or> res = Result data (Some err) \<longrightarrow>
      getAdminPassword res stored
        = (case stored of None \<Rightarrow> ''admin'' | Some st \<Rightarrow> if st = [] then ''admin'' else st))
   \<and> getAdminPassword (Result None None) stored = ''admin''
   \<and> getAdminPassword (Result (Some v) None) stored = v"
  by (auto simp: getAdminPassword_def)

theorem getAdminPassword_fallback_witness:
  "getAdminPassword Thrown None = ''admin''
   \<and> getAdminPassword Thrown (Some ''s3cret'') = ''s3cret''
   \<and> getAdminPassword (Result None (Some ''PGRST116'')) (Some ''s3cret'') = ''s3cret''
   \<and> getAdminPassword Thrown (Some []) = ''admin''"
proof -
  note T1 = getAdminPassword_fallback [of Thrown None "''PGRST116''" None]
  note T2 = getAdminPassword_fallback [of Thrown None "''PGRST116''" "Some ''s3cret''"]
  note T3 = getAdminPassword_fallback [of "Result None (Some ''PGRST116'')" None "''PGRST116''"
      "Some ''s3cret''"]
  note T4 = getAdminPassword_fallback [of Thrown None "''PGRST116''" "Some []"]
  from T1 T2 T3 T4 show ?thesis by simp
qed

end
